theory Spec2Isabelle
  imports Main "HOL-Library.Word"
begin

section \<open>Data model\<close>

text \<open>
  A Go \<^verbatim>\<open>error\<close> is identified with the message its \<^verbatim>\<open>Error()\<close> method returns, so
  \<^verbatim>\<open>errors.New(s)\<close> is \<open>s\<close> and \<^verbatim>\<open>err.Error()\<close> is \<open>err\<close>. A \<^verbatim>\<open>nil\<close> error is \<open>None\<close>.
\<close>

type_synonym error = string

text \<open>
  \<^verbatim>\<open>libdns.Record\<close>, with the fields provider.go reads; the TTL is a \<^verbatim>\<open>time.Duration\<close>,
  an int64.
\<close>

record libdns_Record =
  ID :: string
  Type :: string
  Name :: string
  Value :: string
  TTL :: "64 word"

text \<open>\<^verbatim>\<open>Provider\<close> (provider.go, lines 15-19).\<close>

record Provider =
  AuthId :: string
  SubAuthId :: string
  AuthPassword :: string

text \<open>
  The remote record client that \<^verbatim>\<open>UseClient\<close> returns is not part of provider.go. It is a
  parameter of the model: four operations over an arbitrary remote world \<open>'w\<close>, each taking
  the caller's context \<open>'c\<close>. A Go result \<^verbatim>\<open>(value, err)\<close> of the client is a sum: \<open>Inl\<close> is
  a non-nil error, \<open>Inr\<close> the value returned with a nil error.
\<close>

record ('w, 'c) Client =
  client_GetRecords :: "'c \<Rightarrow> string \<Rightarrow> 'w \<Rightarrow> (error + libdns_Record list) \<times> 'w"
  client_AddRecord ::
    "'c \<Rightarrow> string \<Rightarrow> string \<Rightarrow> string \<Rightarrow> string \<Rightarrow> 64 word \<Rightarrow> 'w \<Rightarrow> (error + libdns_Record) \<times> 'w"
  client_UpdateRecord ::
    "'c \<Rightarrow> string \<Rightarrow> string \<Rightarrow> string \<Rightarrow> string \<Rightarrow> 64 word \<Rightarrow> 'w \<Rightarrow> (error + libdns_Record) \<times> 'w"
  client_DeleteRecord :: "'c \<Rightarrow> string \<Rightarrow> string \<Rightarrow> 'w \<Rightarrow> (error + libdns_Record) \<times> 'w"

text \<open>
  Every remote call is recorded, with its arguments and with the error it returned, in a
  log kept beside the remote world. The log is how the calls a provider operation makes are
  observed.
\<close>

datatype 'c call =
  GetRecordsCall 'c string
| AddRecordCall 'c string string string string "64 word"
| UpdateRecordCall 'c string string string string "64 word"
| DeleteRecordCall 'c string string

type_synonym 'c entry = "'c call \<times> error option"

type_synonym ('w, 'c) remote = "'w \<times> 'c entry list"

definition err_of :: "error + 'a \<Rightarrow> error option" where
  "err_of res = (case res of Inl e \<Rightarrow> Some e | Inr _ \<Rightarrow> None)"

definition calls :: "('w, 'c) remote \<Rightarrow> 'c call list" where
  "calls st = map fst (snd st)"

definition do_GetRecords ::
  "('w, 'c) Client \<Rightarrow> 'c \<Rightarrow> string \<Rightarrow> ('w, 'c) remote \<Rightarrow> (error + libdns_Record list) \<times> ('w, 'c) remote" where
  "do_GetRecords C ctx zone st =
     (case client_GetRecords C ctx zone (fst st) of
        (res, w') \<Rightarrow> (res, (w', snd st @ [(GetRecordsCall ctx zone, err_of res)])))"

definition do_AddRecord ::
  "('w, 'c) Client \<Rightarrow> 'c \<Rightarrow> string \<Rightarrow> string \<Rightarrow> string \<Rightarrow> string \<Rightarrow> 64 word \<Rightarrow> ('w, 'c) remote
     \<Rightarrow> (error + libdns_Record) \<times> ('w, 'c) remote" where
  "do_AddRecord C ctx zone ty name val ttl st =
     (case client_AddRecord C ctx zone ty name val ttl (fst st) of
        (res, w') \<Rightarrow> (res, (w', snd st @ [(AddRecordCall ctx zone ty name val ttl, err_of res)])))"

definition do_UpdateRecord ::
  "('w, 'c) Client \<Rightarrow> 'c \<Rightarrow> string \<Rightarrow> string \<Rightarrow> string \<Rightarrow> string \<Rightarrow> 64 word \<Rightarrow> ('w, 'c) remote
     \<Rightarrow> (error + libdns_Record) \<times> ('w, 'c) remote" where
  "do_UpdateRecord C ctx zone ident name val ttl st =
     (case client_UpdateRecord C ctx zone ident name val ttl (fst st) of
        (res, w') \<Rightarrow> (res, (w', snd st @ [(UpdateRecordCall ctx zone ident name val ttl, err_of res)])))"

definition do_DeleteRecord ::
  "('w, 'c) Client \<Rightarrow> 'c \<Rightarrow> string \<Rightarrow> string \<Rightarrow> ('w, 'c) remote \<Rightarrow> (error + libdns_Record) \<times> ('w, 'c) remote" where
  "do_DeleteRecord C ctx zone ident st =
     (case client_DeleteRecord C ctx zone ident (fst st) of
        (res, w') \<Rightarrow> (res, (w', snd st @ [(DeleteRecordCall ctx zone ident, err_of res)])))"

section \<open>String helpers of Go's \<^verbatim>\<open>strings\<close> package\<close>

definition HasSuffix :: "string \<Rightarrow> string \<Rightarrow> bool" where
  "HasSuffix s suffix =
     (length suffix \<le> length s \<and> drop (length s - length suffix) s = suffix)"

definition HasPrefix :: "string \<Rightarrow> string \<Rightarrow> bool" where
  "HasPrefix s prefix = (length prefix \<le> length s \<and> take (length prefix) s = prefix)"

definition TrimSuffix :: "string \<Rightarrow> string \<Rightarrow> string" where
  "TrimSuffix s suffix =
     (if HasSuffix s suffix then take (length s - length suffix) s else s)"

text \<open>The first statement of each of the four operations (lines 23-25, 35-37, 97-99, 123-125).\<close>

definition trim_zone :: "string \<Rightarrow> string" where
  "trim_zone zone = (if HasSuffix zone ''.'' then TrimSuffix zone ''.'' else zone)"

section \<open>The provider's operations\<close>

text \<open>
  Each operation takes \<^verbatim>\<open>UseClient\<close> (here \<open>U\<close>), the provider, the context, the zone and
  the state of the remote, and returns the Go result pair with the new state. A \<^verbatim>\<open>nil\<close>
  slice is the empty list.
\<close>

type_synonym ('w, 'c) use_client = "string \<Rightarrow> string \<Rightarrow> string \<Rightarrow> ('w, 'c) Client"

type_synonym ('w, 'c) result = "(libdns_Record list \<times> error option) \<times> ('w, 'c) remote"

definition the_client :: "('w, 'c) use_client \<Rightarrow> Provider \<Rightarrow> ('w, 'c) Client" where
  "the_client U p = U (AuthId p) (SubAuthId p) (AuthPassword p)"

definition GetRecords ::
  "('w, 'c) use_client \<Rightarrow> Provider \<Rightarrow> 'c \<Rightarrow> string \<Rightarrow> ('w, 'c) remote \<Rightarrow> ('w, 'c) result" where
  "GetRecords U p ctx zone st =
     (case do_GetRecords (the_client U p) ctx (trim_zone zone) st of
        (Inl err, st') \<Rightarrow> (([], Some err), st')
      | (Inr records, st') \<Rightarrow> ((records, None), st'))"

fun DeleteRecords_loop ::
  "('w, 'c) use_client \<Rightarrow> Provider \<Rightarrow> 'c \<Rightarrow> string \<Rightarrow> libdns_Record list \<Rightarrow> libdns_Record list
     \<Rightarrow> ('w, 'c) remote \<Rightarrow> ('w, 'c) result" where
  "DeleteRecords_loop U p ctx zone [] deletedRecords st = ((deletedRecords, None), st)"
| "DeleteRecords_loop U p ctx zone (record # records) deletedRecords st =
     (case do_DeleteRecord (the_client U p) ctx zone (ID record) st of
        (Inl err, st') \<Rightarrow> (([], Some (''failed to delete record: '' @ err)), st')
      | (Inr r, st') \<Rightarrow> DeleteRecords_loop U p ctx zone records (deletedRecords @ [r]) st')"

definition DeleteRecords ::
  "('w, 'c) use_client \<Rightarrow> Provider \<Rightarrow> 'c \<Rightarrow> string \<Rightarrow> libdns_Record list \<Rightarrow> ('w, 'c) remote
     \<Rightarrow> ('w, 'c) result" where
  "DeleteRecords U p ctx zone records st =
     DeleteRecords_loop U p ctx (trim_zone zone) records [] st"

text \<open>
  The body of the loop of \<^verbatim>\<open>SetRecords\<close> (lines 102-116): \<open>Inl\<close> is the early
  \<^verbatim>\<open>return nil, err\<close>, \<open>Inr r\<close> the record appended to \<^verbatim>\<open>updatedRecords\<close>.
\<close>

definition SetRecords_body ::
  "('w, 'c) use_client \<Rightarrow> Provider \<Rightarrow> 'c \<Rightarrow> string \<Rightarrow> libdns_Record \<Rightarrow> ('w, 'c) remote
     \<Rightarrow> (error + libdns_Record) \<times> ('w, 'c) remote" where
  "SetRecords_body U p ctx zone record st =
     (if length (ID record) = 0 then
        (case do_AddRecord (the_client U p) ctx zone (Type record) (Name record) (Value record)
                (TTL record) st of
           (Inl err, st') \<Rightarrow> (Inl (''failed to add record: '' @ err), st')
         | (Inr r, st') \<Rightarrow> (Inr r, st'))
      else
        (case do_UpdateRecord (the_client U p) ctx zone (ID record) (Name record) (Value record)
                (TTL record) st of
           (Inl err, st') \<Rightarrow> (Inl (''failed to update record: '' @ err), st')
         | (Inr r, st') \<Rightarrow> (Inr r, st')))"

fun SetRecords_loop ::
  "('w, 'c) use_client \<Rightarrow> Provider \<Rightarrow> 'c \<Rightarrow> string \<Rightarrow> libdns_Record list \<Rightarrow> libdns_Record list
     \<Rightarrow> ('w, 'c) remote \<Rightarrow> ('w, 'c) result" where
  "SetRecords_loop U p ctx zone [] updatedRecords st = ((updatedRecords, None), st)"
| "SetRecords_loop U p ctx zone (record # records) updatedRecords st =
     (case SetRecords_body U p ctx zone record st of
        (Inl err, st') \<Rightarrow> (([], Some err), st')
      | (Inr r, st') \<Rightarrow> SetRecords_loop U p ctx zone records (updatedRecords @ [r]) st')"

definition SetRecords ::
  "('w, 'c) use_client \<Rightarrow> Provider \<Rightarrow> 'c \<Rightarrow> string \<Rightarrow> libdns_Record list \<Rightarrow> ('w, 'c) remote
     \<Rightarrow> ('w, 'c) result" where
  "SetRecords U p ctx zone records st =
     SetRecords_loop U p ctx (trim_zone zone) records [] st"

text \<open>
  The inner loop of \<^verbatim>\<open>AppendRecords\<close> (lines 50-63), with its two variables
  \<^verbatim>\<open>currentRecord\<close> (a pointer, \<open>None\<close> when nil) and \<^verbatim>\<open>recordsToDelete\<close>.
\<close>

fun scan_existing ::
  "libdns_Record \<Rightarrow> libdns_Record list \<Rightarrow> libdns_Record option \<Rightarrow> libdns_Record list
     \<Rightarrow> libdns_Record option \<times> libdns_Record list" where
  "scan_existing record [] currentRecord recordsToDelete = (currentRecord, recordsToDelete)"
| "scan_existing record (existing # rest) currentRecord recordsToDelete =
     (if Type existing = Type record \<and> Name existing = Name record then
        (if currentRecord = None then scan_existing record rest (Some existing) recordsToDelete
         else scan_existing record rest currentRecord (recordsToDelete @ [existing]))
      else scan_existing record rest currentRecord recordsToDelete)"

text \<open>Lines 84-89: the plain creation of a candidate.\<close>

definition AppendRecords_add ::
  "('w, 'c) use_client \<Rightarrow> Provider \<Rightarrow> 'c \<Rightarrow> string \<Rightarrow> libdns_Record \<Rightarrow> ('w, 'c) remote
     \<Rightarrow> (error + libdns_Record) \<times> ('w, 'c) remote" where
  "AppendRecords_add U p ctx zone record st =
     (case do_AddRecord (the_client U p) ctx zone (Type record) (Name record) (Value record)
             (TTL record) st of
        (Inl err, st') \<Rightarrow> (Inl (''failed to add record: '' @ err), st')
      | (Inr r, st') \<Rightarrow> (Inr r, st'))"

text \<open>Lines 66-71: the deletion of the stale records, giving the error to check.\<close>

definition AppendRecords_delete_stale ::
  "('w, 'c) use_client \<Rightarrow> Provider \<Rightarrow> 'c \<Rightarrow> string \<Rightarrow> libdns_Record list \<Rightarrow> ('w, 'c) remote
     \<Rightarrow> error option \<times> ('w, 'c) remote" where
  "AppendRecords_delete_stale U p ctx zone recordsToDelete st =
     (if 0 < length recordsToDelete then
        (case DeleteRecords U p ctx zone recordsToDelete st of ((_, err), st') \<Rightarrow> (err, st'))
      else (None, st))"

text \<open>
  The body of the outer loop of \<^verbatim>\<open>AppendRecords\<close> (lines 41-89): \<open>Inl\<close> is the early
  \<^verbatim>\<open>return nil, err\<close>, \<open>Inr r\<close> the record appended to \<^verbatim>\<open>createdRecords\<close>.
\<close>

definition AppendRecords_body ::
  "('w, 'c) use_client \<Rightarrow> Provider \<Rightarrow> 'c \<Rightarrow> string \<Rightarrow> libdns_Record \<Rightarrow> ('w, 'c) remote
     \<Rightarrow> (error + libdns_Record) \<times> ('w, 'c) remote" where
  "AppendRecords_body U p ctx zone record st =
     (if HasPrefix (Name record) ''_acme-challenge.'' then
        (case GetRecords U p ctx zone st of
           ((existingRecords, Some err), st1) \<Rightarrow>
             (Inl (''failed to get existing records: '' @ err), st1)
         | ((existingRecords, None), st1) \<Rightarrow>
             (case scan_existing record existingRecords None [] of
                (currentRecord, recordsToDelete) \<Rightarrow>
                  (case AppendRecords_delete_stale U p ctx zone recordsToDelete st1 of
                     (Some err, st2) \<Rightarrow>
                       (Inl (''failed to delete stale ACME challenge records: '' @ err), st2)
                   | (None, st2) \<Rightarrow>
                       (case currentRecord of
                          Some cur \<Rightarrow>
                            (case do_UpdateRecord (the_client U p) ctx zone (ID cur) (Name record)
                                    (Value record) (TTL record) st2 of
                               (Inl err, st3) \<Rightarrow>
                                 (Inl (''failed to update ACME challenge record: '' @ err), st3)
                             | (Inr r, st3) \<Rightarrow> (Inr r, st3))
                        | None \<Rightarrow> AppendRecords_add U p ctx zone record st2))))
      else AppendRecords_add U p ctx zone record st)"

fun AppendRecords_loop ::
  "('w, 'c) use_client \<Rightarrow> Provider \<Rightarrow> 'c \<Rightarrow> string \<Rightarrow> libdns_Record list \<Rightarrow> libdns_Record list
     \<Rightarrow> ('w, 'c) remote \<Rightarrow> ('w, 'c) result" where
  "AppendRecords_loop U p ctx zone [] createdRecords st = ((createdRecords, None), st)"
| "AppendRecords_loop U p ctx zone (record # records) createdRecords st =
     (case AppendRecords_body U p ctx zone record st of
        (Inl err, st') \<Rightarrow> (([], Some err), st')
      | (Inr r, st') \<Rightarrow> AppendRecords_loop U p ctx zone records (createdRecords @ [r]) st')"

definition AppendRecords ::
  "('w, 'c) use_client \<Rightarrow> Provider \<Rightarrow> 'c \<Rightarrow> string \<Rightarrow> libdns_Record list \<Rightarrow> ('w, 'c) remote
     \<Rightarrow> ('w, 'c) result" where
  "AppendRecords U p ctx zone records st =
     AppendRecords_loop U p ctx (trim_zone zone) records [] st"

section \<open>Notions used to state the properties\<close>

text \<open>The existing records with the candidate's type and name, in the order of the listing.\<close>

definition matching :: "libdns_Record \<Rightarrow> libdns_Record list \<Rightarrow> libdns_Record list" where
  "matching record existingRecords =
     filter (\<lambda>existing. Type existing = Type record \<and> Name existing = Name record)
       existingRecords"

text \<open>
  The three batch loops have one shape: run a body on each record in turn, collect what it
  yields, and give up with an empty list at the first error.
\<close>

fun run_batch ::
  "('a \<Rightarrow> 's \<Rightarrow> (error + 'b) \<times> 's) \<Rightarrow> 'a list \<Rightarrow> 'b list \<Rightarrow> 's \<Rightarrow> ('b list \<times> error option) \<times> 's" where
  "run_batch f [] acc s = ((acc, None), s)"
| "run_batch f (x # xs) acc s =
     (case f x s of
        (Inl err, s') \<Rightarrow> (([], Some err), s')
      | (Inr y, s') \<Rightarrow> run_batch f xs (acc @ [y]) s')"

text \<open>
  The result of a batch whose first records yielded \<open>sofar\<close> and whose remaining records,
  run on their own, gave \<open>out\<close>: the two lists joined, or the error of \<open>out\<close> alone.
\<close>

definition continue_with ::
  "'b list \<Rightarrow> ('b list \<times> error option) \<times> 's \<Rightarrow> ('b list \<times> error option) \<times> 's" where
  "continue_with sofar out =
     (case out of
        ((ys, None), s') \<Rightarrow> ((sofar @ ys, None), s')
      | ((ys, Some e), s') \<Rightarrow> (([], Some e), s'))"

text \<open>The body of the loop of \<^verbatim>\<open>DeleteRecords\<close> (lines 128-132), seen as a step.\<close>

definition DeleteRecords_body ::
  "('w, 'c) use_client \<Rightarrow> Provider \<Rightarrow> 'c \<Rightarrow> string \<Rightarrow> libdns_Record \<Rightarrow> ('w, 'c) remote
     \<Rightarrow> (error + libdns_Record) \<times> ('w, 'c) remote" where
  "DeleteRecords_body U p ctx zone record st =
     (case do_DeleteRecord (the_client U p) ctx zone (ID record) st of
        (Inl err, st') \<Rightarrow> (Inl (''failed to delete record: '' @ err), st')
      | (Inr r, st') \<Rightarrow> (Inr r, st'))"

text \<open>The remote call that \<^verbatim>\<open>SetRecords\<close> makes for a record, and what the client does for it.\<close>

definition Set_call :: "'c \<Rightarrow> string \<Rightarrow> libdns_Record \<Rightarrow> 'c call" where
  "Set_call ctx zone record =
     (if ID record = [] then
        AddRecordCall ctx zone (Type record) (Name record) (Value record) (TTL record)
      else UpdateRecordCall ctx zone (ID record) (Name record) (Value record) (TTL record))"

definition Set_client ::
  "('w, 'c) Client \<Rightarrow> 'c \<Rightarrow> string \<Rightarrow> libdns_Record \<Rightarrow> 'w \<Rightarrow> (error + libdns_Record) \<times> 'w" where
  "Set_client C ctx zone record w =
     (if ID record = [] then
        client_AddRecord C ctx zone (Type record) (Name record) (Value record) (TTL record) w
      else client_UpdateRecord C ctx zone (ID record) (Name record) (Value record) (TTL record) w)"

text \<open>
  Replaying a piece of the log on a remote world: the client runs each logged call in
  turn, and the replay succeeds when every call returns the error the log holds for it.
\<close>

fun client_run :: "('w, 'c) Client \<Rightarrow> 'c call \<Rightarrow> 'w \<Rightarrow> error option \<times> 'w" where
  "client_run C (GetRecordsCall ctx zone) w =
     (case client_GetRecords C ctx zone w of (res, w') \<Rightarrow> (err_of res, w'))"
| "client_run C (AddRecordCall ctx zone ty name val ttl) w =
     (case client_AddRecord C ctx zone ty name val ttl w of (res, w') \<Rightarrow> (err_of res, w'))"
| "client_run C (UpdateRecordCall ctx zone ident name val ttl) w =
     (case client_UpdateRecord C ctx zone ident name val ttl w of (res, w') \<Rightarrow> (err_of res, w'))"
| "client_run C (DeleteRecordCall ctx zone ident) w =
     (case client_DeleteRecord C ctx zone ident w of (res, w') \<Rightarrow> (err_of res, w'))"

fun replay :: "('w, 'c) Client \<Rightarrow> 'c entry list \<Rightarrow> 'w \<Rightarrow> 'w option" where
  "replay C [] w = Some w"
| "replay C (e # es) w =
     (case client_run C (fst e) w of
        (err, w') \<Rightarrow> if err = snd e then replay C es w' else None)"

text \<open>
  What an operation that went from \<open>st\<close> to \<open>st'\<close> and returned the error \<open>err\<close> owes its
  caller: the log only grew; the remote world is the old one after exactly the new calls,
  in order; with no error every new call succeeded; with an error \<open>m\<close> the last new call is
  the only one that failed, and \<open>m\<close> is the message \<open>msg\<close> gives for that call and its cause.
\<close>

definition reported ::
  "('w, 'c) Client \<Rightarrow> ('c call \<Rightarrow> error \<Rightarrow> error option) \<Rightarrow> ('w, 'c) remote \<Rightarrow> error option
     \<Rightarrow> ('w, 'c) remote \<Rightarrow> bool" where
  "reported C msg st err st' =
     (take (length (snd st)) (snd st') = snd st \<and>
      (let new = drop (length (snd st)) (snd st') in
         replay C new (fst st) = Some (fst st') \<and>
         (case err of
            None \<Rightarrow> list_all (\<lambda>e. snd e = None) new
          | Some m \<Rightarrow>
              new \<noteq> [] \<and> list_all (\<lambda>e. snd e = None) (butlast new) \<and>
              (case snd (last new) of
                 None \<Rightarrow> False
               | Some cause \<Rightarrow> msg (fst (last new)) cause = Some m))))"

definition aborts_cleanly ::
  "('w, 'c) Client \<Rightarrow> ('c call \<Rightarrow> error \<Rightarrow> error option) \<Rightarrow> ('w, 'c) remote \<Rightarrow> ('w, 'c) result
     \<Rightarrow> bool" where
  "aborts_cleanly C msg st out =
     (case out of ((res, err), st') \<Rightarrow> reported C msg st err st' \<and> (err \<noteq> None \<longrightarrow> res = []))"

text \<open>
  The error taxonomy: the message each operation returns when a remote call of a given
  kind fails with a given cause; \<open>None\<close> for a kind of call the operation never makes.
\<close>

fun Delete_error :: "'c call \<Rightarrow> error \<Rightarrow> error option" where
  "Delete_error (DeleteRecordCall ctx zone ident) cause = Some (''failed to delete record: '' @ cause)"
| "Delete_error _ cause = None"

fun Set_error :: "'c call \<Rightarrow> error \<Rightarrow> error option" where
  "Set_error (AddRecordCall ctx zone ty name val ttl) cause = Some (''failed to add record: '' @ cause)"
| "Set_error (UpdateRecordCall ctx zone ident name val ttl) cause =
     Some (''failed to update record: '' @ cause)"
| "Set_error _ cause = None"

fun Append_error :: "'c call \<Rightarrow> error \<Rightarrow> error option" where
  "Append_error (GetRecordsCall ctx zone) cause = Some (''failed to get existing records: '' @ cause)"
| "Append_error (DeleteRecordCall ctx zone ident) cause =
     Some (''failed to delete stale ACME challenge records: '' @ ''failed to delete record: '' @ cause)"
| "Append_error (UpdateRecordCall ctx zone ident name val ttl) cause =
     Some (''failed to update ACME challenge record: '' @ cause)"
| "Append_error (AddRecordCall ctx zone ty name val ttl) cause =
     Some (''failed to add record: '' @ cause)"

text \<open>
  An error wraps a cause when its message is the cause's message behind a non-empty
  prefix, as \<^verbatim>\<open>errors.New("...: " + err.Error())\<close> builds it.
\<close>

definition wraps :: "error \<Rightarrow> error \<Rightarrow> bool" where
  "wraps outer cause = (length cause < length outer \<and> HasSuffix outer cause)"

section \<open>A remote to run the operations on\<close>

text \<open>
  Modelled from the spec: the Remote Record Client (the client that \<^verbatim>\<open>UseClient\<close> builds is
  not in provider.go). This instance keeps the records of the one zone \<open>example.com\<close> in a
  list: listing returns them, creation appends a record under an identifier built from the
  number of records held, update and deletion look the record up by identifier; an unknown
  zone or identifier is an error.
\<close>

definition mock_GetRecords ::
  "unit \<Rightarrow> string \<Rightarrow> libdns_Record list \<Rightarrow> (error + libdns_Record list) \<times> libdns_Record list" where
  "mock_GetRecords ctx zone w =
     (if zone = ''example.com'' then (Inr w, w) else (Inl ''zone not found'', w))"

definition mock_AddRecord ::
  "unit \<Rightarrow> string \<Rightarrow> string \<Rightarrow> string \<Rightarrow> string \<Rightarrow> 64 word \<Rightarrow> libdns_Record list
     \<Rightarrow> (error + libdns_Record) \<times> libdns_Record list" where
  "mock_AddRecord ctx zone ty name val ttl w =
     (if zone = ''example.com'' then
        (Inr \<lparr>ID = ''n'' @ replicate (length w) (CHR ''+''), Type = ty, Name = name,
               Value = val, TTL = ttl\<rparr>,
         w @ [\<lparr>ID = ''n'' @ replicate (length w) (CHR ''+''), Type = ty, Name = name,
                Value = val, TTL = ttl\<rparr>])
      else (Inl ''zone not found'', w))"

definition mock_UpdateRecord ::
  "unit \<Rightarrow> string \<Rightarrow> string \<Rightarrow> string \<Rightarrow> string \<Rightarrow> 64 word \<Rightarrow> libdns_Record list
     \<Rightarrow> (error + libdns_Record) \<times> libdns_Record list" where
  "mock_UpdateRecord ctx zone ident name val ttl w =
     (if zone = ''example.com'' then
        (case find (\<lambda>r. ID r = ident) w of
           None \<Rightarrow> (Inl ''record not found'', w)
         | Some r \<Rightarrow>
             (Inr (r\<lparr>Name := name, Value := val, TTL := ttl\<rparr>),
              map (\<lambda>x. if ID x = ident then r\<lparr>Name := name, Value := val, TTL := ttl\<rparr> else x) w))
      else (Inl ''zone not found'', w))"

definition mock_DeleteRecord ::
  "unit \<Rightarrow> string \<Rightarrow> string \<Rightarrow> libdns_Record list \<Rightarrow> (error + libdns_Record) \<times> libdns_Record list" where
  "mock_DeleteRecord ctx zone ident w =
     (if zone = ''example.com'' then
        (case find (\<lambda>r. ID r = ident) w of
           None \<Rightarrow> (Inl ''record not found'', w)
         | Some r \<Rightarrow> (Inr r, filter (\<lambda>x. ID x \<noteq> ident) w))
      else (Inl ''zone not found'', w))"

definition mock_client :: "(libdns_Record list, unit) Client" where
  "mock_client = \<lparr>client_GetRecords = mock_GetRecords, client_AddRecord = mock_AddRecord,
     client_UpdateRecord = mock_UpdateRecord, client_DeleteRecord = mock_DeleteRecord\<rparr>"

definition mock_UseClient :: "(libdns_Record list, unit) use_client" where
  "mock_UseClient authId subAuthId authPassword = mock_client"

definition mock_provider :: Provider where
  "mock_provider = \<lparr>AuthId = ''id'', SubAuthId = [], AuthPassword = ''secret''\<rparr>"

text \<open>
  Modelled from the spec: a second instance of the Remote Record Client, with credentials that
  may only read. It lists the zone as the first instance does and refuses every creation,
  update and deletion.
\<close>

definition readonly_client :: "(libdns_Record list, unit) Client" where
  "readonly_client = \<lparr>client_GetRecords = mock_GetRecords,
     client_AddRecord = (\<lambda>ctx zone ty name val ttl w. (Inl ''permission denied'', w)),
     client_UpdateRecord = (\<lambda>ctx zone ident name val ttl w. (Inl ''permission denied'', w)),
     client_DeleteRecord = (\<lambda>ctx zone ident w. (Inl ''permission denied'', w))\<rparr>"

definition readonly_UseClient :: "(libdns_Record list, unit) use_client" where
  "readonly_UseClient authId subAuthId authPassword = readonly_client"

text \<open>A record with a TTL of 60, for the scenarios.\<close>

definition mk_record :: "string \<Rightarrow> string \<Rightarrow> string \<Rightarrow> string \<Rightarrow> libdns_Record" where
  "mk_record ident ty name val = \<lparr>ID = ident, Type = ty, Name = name, Value = val, TTL = 60\<rparr>"

section \<open>Evaluation and basic facts\<close>

text \<open>The equations that evaluate the operations on the remotes of the scenarios.\<close>

lemmas eval_defs = AppendRecords_def AppendRecords_body_def AppendRecords_add_def
  AppendRecords_delete_stale_def GetRecords_def DeleteRecords_def SetRecords_def
  SetRecords_body_def do_GetRecords_def do_AddRecord_def do_UpdateRecord_def
  do_DeleteRecord_def the_client_def err_of_def HasSuffix_def HasPrefix_def TrimSuffix_def
  trim_zone_def mock_UseClient_def mock_client_def mock_provider_def mock_GetRecords_def
  mock_AddRecord_def mock_UpdateRecord_def mock_DeleteRecord_def mk_record_def matching_def
  calls_def

lemmas eval_more = eval_defs readonly_client_def readonly_UseClient_def continue_with_def

subsection \<open>The loops as batches\<close>

lemma DeleteRecords_loop_batch:
  "DeleteRecords_loop U p ctx zone records acc st =
     run_batch (DeleteRecords_body U p ctx zone) records acc st"
  by (induction records arbitrary: acc st)
     (auto simp: DeleteRecords_body_def split: prod.splits sum.splits)

lemma SetRecords_loop_batch:
  "SetRecords_loop U p ctx zone records acc st =
     run_batch (SetRecords_body U p ctx zone) records acc st"
  by (induction records arbitrary: acc st) (auto split: prod.splits sum.splits)

lemma AppendRecords_loop_batch:
  "AppendRecords_loop U p ctx zone records acc st =
     run_batch (AppendRecords_body U p ctx zone) records acc st"
  by (induction records arbitrary: acc st) (auto split: prod.splits sum.splits)

subsection \<open>What a remote call leaves in the log\<close>

lemma do_GetRecords_log:
  "do_GetRecords C ctx zone st = (res, st') \<Longrightarrow>
   snd st' = snd st @ [(GetRecordsCall ctx zone, err_of res)] \<and>
   client_GetRecords C ctx zone (fst st) = (res, fst st')"
  by (auto simp: do_GetRecords_def split: prod.splits)

lemma do_AddRecord_log:
  "do_AddRecord C ctx zone ty name val ttl st = (res, st') \<Longrightarrow>
   snd st' = snd st @ [(AddRecordCall ctx zone ty name val ttl, err_of res)] \<and>
   client_AddRecord C ctx zone ty name val ttl (fst st) = (res, fst st')"
  by (auto simp: do_AddRecord_def split: prod.splits)

lemma do_UpdateRecord_log:
  "do_UpdateRecord C ctx zone ident name val ttl st = (res, st') \<Longrightarrow>
   snd st' = snd st @ [(UpdateRecordCall ctx zone ident name val ttl, err_of res)] \<and>
   client_UpdateRecord C ctx zone ident name val ttl (fst st) = (res, fst st')"
  by (auto simp: do_UpdateRecord_def split: prod.splits)

lemma do_DeleteRecord_log:
  "do_DeleteRecord C ctx zone ident st = (res, st') \<Longrightarrow>
   snd st' = snd st @ [(DeleteRecordCall ctx zone ident, err_of res)] \<and>
   client_DeleteRecord C ctx zone ident (fst st) = (res, fst st')"
  by (auto simp: do_DeleteRecord_def split: prod.splits)

subsection \<open>The scan of the listing and the zone name\<close>

lemma scan_existing_matching:
  "scan_existing record xs cur del =
     (case cur of
        Some c \<Rightarrow> (Some c, del @ matching record xs)
      | None \<Rightarrow> (case matching record xs of [] \<Rightarrow> (None, del) | c # s \<Rightarrow> (Some c, del @ s)))"
  by (induction xs arbitrary: cur del) (auto simp: matching_def split: option.splits list.splits)

lemma trim_zone_dot: "trim_zone (z @ ''.'') = z"
  by (simp add: trim_zone_def HasSuffix_def TrimSuffix_def)

lemma trim_zone_id: "\<not> HasSuffix z ''.'' \<Longrightarrow> trim_zone z = z"
  by (simp add: trim_zone_def)

subsection \<open>Reporting of the first failure\<close>

lemma replay_append:
  "replay C (a @ b) w = (case replay C a w of None \<Rightarrow> None | Some w' \<Rightarrow> replay C b w')"
  by (induction a arbitrary: w) (auto split: prod.splits)

lemma reported_iff:
  "reported C msg st err st' \<longleftrightarrow>
     (\<exists>new. snd st' = snd st @ new \<and> replay C new (fst st) = Some (fst st') \<and>
        (case err of
           None \<Rightarrow> list_all (\<lambda>e. snd e = None) new
         | Some m \<Rightarrow>
             new \<noteq> [] \<and> list_all (\<lambda>e. snd e = None) (butlast new) \<and>
             (\<exists>cause. snd (last new) = Some cause \<and> msg (fst (last new)) cause = Some m)))"
  (is "?L \<longleftrightarrow> ?R")
proof
  assume ?L
  then have t: "take (length (snd st)) (snd st') = snd st" by (simp add: reported_def)
  have "snd st' = take (length (snd st)) (snd st') @ drop (length (snd st)) (snd st')" by simp
  with t have "snd st' = snd st @ drop (length (snd st)) (snd st')" by simp
  with \<open>?L\<close> show ?R
    by (intro exI [of _ "drop (length (snd st)) (snd st')"])
       (auto simp: reported_def Let_def split: option.splits)
next
  assume ?R
  then show ?L by (auto simp: reported_def Let_def split: option.splits)
qed

lemma reported_refl: "reported C msg st None st"
  by (simp add: reported_def)

lemma reported_trans:
  assumes "reported C msg st None st1" and "reported C msg st1 err st2"
  shows "reported C msg st err st2"
proof -
  from assms(1) obtain a where a: "snd st1 = snd st @ a" "replay C a (fst st) = Some (fst st1)"
    "list_all (\<lambda>e. snd e = None) a"
    by (auto simp: reported_iff)
  from assms(2) obtain b where b: "snd st2 = snd st1 @ b" "replay C b (fst st1) = Some (fst st2)"
    and c: "case err of
           None \<Rightarrow> list_all (\<lambda>e. snd e = None) b
         | Some m \<Rightarrow>
             b \<noteq> [] \<and> list_all (\<lambda>e. snd e = None) (butlast b) \<and>
             (\<exists>cause. snd (last b) = Some cause \<and> msg (fst (last b)) cause = Some m)"
    by (auto simp: reported_iff)
  have "snd st2 = snd st @ (a @ b)" using a b by simp
  moreover have "replay C (a @ b) (fst st) = Some (fst st2)"
    using a b by (simp add: replay_append)
  moreover have "case err of
           None \<Rightarrow> list_all (\<lambda>e. snd e = None) (a @ b)
         | Some m \<Rightarrow>
             a @ b \<noteq> [] \<and> list_all (\<lambda>e. snd e = None) (butlast (a @ b)) \<and>
             (\<exists>cause. snd (last (a @ b)) = Some cause \<and> msg (fst (last (a @ b))) cause = Some m)"
    using a(3) c by (auto simp: butlast_append split: option.splits)
  ultimately show ?thesis unfolding reported_iff by blast
qed

lemma reported_mono:
  assumes "reported C msg st err st'"
    and "\<And>c cause m. msg c cause = Some m \<Longrightarrow> msg' c cause = Some (g m)"
  shows "reported C msg' st (map_option g err) st'"
  using assms unfolding reported_iff
  by (cases err) auto

lemma reported_single:
  assumes "snd st' = snd st @ [(c, e)]" and "client_run C c (fst st) = (e, fst st')"
    and "case e of None \<Rightarrow> err = None | Some cause \<Rightarrow> \<exists>m. err = Some m \<and> msg c cause = Some m"
  shows "reported C msg st err st'"
  unfolding reported_iff using assms
  by (intro exI [of _ "[(c, e)]"]) (auto split: option.splits)

lemma run_batch_reported:
  assumes "\<And>x s r s'. f x s = (r, s') \<Longrightarrow> reported C msg s (err_of r) s'"
    and "run_batch f xs acc s = ((res, err), s')"
  shows "reported C msg s err s'"
  using assms(2)
proof (induction xs arbitrary: acc s)
  case Nil
  then show ?case by (simp add: reported_refl)
next
  case (Cons x xs)
  obtain r s1 where step: "f x s = (r, s1)" by (cases "f x s")
  note r1 = assms(1) [OF step]
  show ?case
  proof (cases r)
    case (Inl e)
    with Cons.prems step r1 show ?thesis by (auto simp: err_of_def)
  next
    case (Inr y)
    with Cons.prems step have "run_batch f xs (acc @ [y]) s1 = ((res, err), s')" by simp
    from Cons.IH [OF this] r1 Inr show ?thesis
      by (auto simp: err_of_def intro: reported_trans)
  qed
qed

lemma run_batch_error_nil:
  "run_batch f xs acc s = ((res, Some e), s') \<Longrightarrow> res = []"
  by (induction xs arbitrary: acc s) (auto split: prod.splits sum.splits)

lemma DeleteRecords_body_reported:
  assumes "DeleteRecords_body U p ctx zone record st = (r, st')"
  shows "reported (the_client U p) Delete_error st (err_of r) st'"
proof -
  obtain res st1 where d: "do_DeleteRecord (the_client U p) ctx zone (ID record) st = (res, st1)"
    by (cases "do_DeleteRecord (the_client U p) ctx zone (ID record) st")
  note l = do_DeleteRecord_log [OF d]
  from assms d have st': "st' = st1" and r: "err_of r = map_option ((@) ''failed to delete record: '') (err_of res)"
    by (auto simp: DeleteRecords_body_def err_of_def split: sum.splits)
  show ?thesis unfolding st' r
    by (rule reported_single [where c = "DeleteRecordCall ctx zone (ID record)" and e = "err_of res"])
       (use l in \<open>auto simp: err_of_def split: sum.splits\<close>)
qed

lemma DeleteRecords_reported:
  assumes "DeleteRecords U p ctx zone records st = ((res, err), st')"
  shows "reported (the_client U p) Delete_error st err st'"
  using assms unfolding DeleteRecords_def DeleteRecords_loop_batch
  by (rule run_batch_reported [rotated]) (rule DeleteRecords_body_reported)

lemma do_AddRecord_reported:
  assumes "do_AddRecord C ctx zone ty name val ttl st = (res, st')"
    and "\<And>cause. msg (AddRecordCall ctx zone ty name val ttl) cause = Some (g cause)"
  shows "reported C msg st (map_option g (err_of res)) st'"
  using do_AddRecord_log [OF assms(1)] assms(2)
  by (intro reported_single [where c = "AddRecordCall ctx zone ty name val ttl" and e = "err_of res"])
     (auto simp: err_of_def split: sum.splits)

lemma do_UpdateRecord_reported:
  assumes "do_UpdateRecord C ctx zone ident name val ttl st = (res, st')"
    and "\<And>cause. msg (UpdateRecordCall ctx zone ident name val ttl) cause = Some (g cause)"
  shows "reported C msg st (map_option g (err_of res)) st'"
  using do_UpdateRecord_log [OF assms(1)] assms(2)
  by (intro reported_single [where c = "UpdateRecordCall ctx zone ident name val ttl" and e = "err_of res"])
     (auto simp: err_of_def split: sum.splits)

lemma do_GetRecords_reported:
  assumes "do_GetRecords C ctx zone st = (res, st')"
    and "\<And>cause. msg (GetRecordsCall ctx zone) cause = Some (g cause)"
  shows "reported C msg st (map_option g (err_of res)) st'"
  using do_GetRecords_log [OF assms(1)] assms(2)
  by (intro reported_single [where c = "GetRecordsCall ctx zone" and e = "err_of res"])
     (auto simp: err_of_def split: sum.splits)

lemma SetRecords_body_reported:
  assumes "SetRecords_body U p ctx zone record st = (r, st')"
  shows "reported (the_client U p) Set_error st (err_of r) st'"
proof (cases "length (ID record) = 0")
  case True
  obtain res st1 where d: "do_AddRecord (the_client U p) ctx zone (Type record) (Name record)
      (Value record) (TTL record) st = (res, st1)"
    by (cases "do_AddRecord (the_client U p) ctx zone (Type record) (Name record)
      (Value record) (TTL record) st")
  from assms d True have "st' = st1"
    "err_of r = map_option ((@) ''failed to add record: '') (err_of res)"
    by (auto simp: SetRecords_body_def err_of_def split: sum.splits)
  with do_AddRecord_reported [OF d, of Set_error "(@) ''failed to add record: ''"]
  show ?thesis by simp
next
  case False
  obtain res st1 where d: "do_UpdateRecord (the_client U p) ctx zone (ID record) (Name record)
      (Value record) (TTL record) st = (res, st1)"
    by (cases "do_UpdateRecord (the_client U p) ctx zone (ID record) (Name record)
      (Value record) (TTL record) st")
  from assms d False have "st' = st1"
    "err_of r = map_option ((@) ''failed to update record: '') (err_of res)"
    by (auto simp: SetRecords_body_def err_of_def split: sum.splits)
  with do_UpdateRecord_reported [OF d, of Set_error "(@) ''failed to update record: ''"]
  show ?thesis by simp
qed

lemma AppendRecords_add_reported:
  assumes "AppendRecords_add U p ctx zone record st = (r, st')"
  shows "reported (the_client U p) Append_error st (err_of r) st'"
proof -
  obtain res st1 where d: "do_AddRecord (the_client U p) ctx zone (Type record) (Name record)
      (Value record) (TTL record) st = (res, st1)"
    by (cases "do_AddRecord (the_client U p) ctx zone (Type record) (Name record)
      (Value record) (TTL record) st")
  from assms d have "st' = st1"
    "err_of r = map_option ((@) ''failed to add record: '') (err_of res)"
    by (auto simp: AppendRecords_add_def err_of_def split: sum.splits)
  with do_AddRecord_reported [OF d, of Append_error "(@) ''failed to add record: ''"]
  show ?thesis by simp
qed

lemma GetRecords_do:
  "GetRecords U p ctx zone st = ((rs, err), st') \<Longrightarrow>
   \<exists>res. do_GetRecords (the_client U p) ctx (trim_zone zone) st = (res, st') \<and>
     err = err_of res \<and> (case res of Inl e \<Rightarrow> rs = [] | Inr x \<Rightarrow> rs = x)"
  by (auto simp: GetRecords_def err_of_def split: prod.splits sum.splits)

lemma GetRecords_reported:
  assumes "GetRecords U p ctx zone st = ((rs, err), st')"
  shows "reported (the_client U p) Append_error st
           (map_option ((@) ''failed to get existing records: '') err) st'"
proof -
  from GetRecords_do [OF assms] obtain res where
    d: "do_GetRecords (the_client U p) ctx (trim_zone zone) st = (res, st')" and e: "err = err_of res"
    by blast
  from do_GetRecords_reported [OF d, of Append_error "(@) ''failed to get existing records: ''"] e
  show ?thesis by simp
qed

lemma AppendRecords_delete_stale_reported:
  assumes "AppendRecords_delete_stale U p ctx zone stale st = (err, st')"
  shows "reported (the_client U p) Append_error st
           (map_option ((@) ''failed to delete stale ACME challenge records: '') err) st'"
proof -
  have "reported (the_client U p) Delete_error st err st'"
  proof (cases "stale = []")
    case True
    with assms show ?thesis by (simp add: AppendRecords_delete_stale_def reported_refl)
  next
    case False
    with assms obtain res where "DeleteRecords U p ctx zone stale st = ((res, err), st')"
      by (auto simp: AppendRecords_delete_stale_def split: prod.splits)
    then show ?thesis by (rule DeleteRecords_reported)
  qed
  then show ?thesis
  proof (rule reported_mono)
    fix c :: "'b call" and cause m
    assume "Delete_error c cause = Some m"
    then show "Append_error c cause = Some (''failed to delete stale ACME challenge records: '' @ m)"
      by (cases c) auto
  qed
qed

subsection \<open>The branches of the body of the append loop\<close>

lemma AppendRecords_body_acme:
  assumes "HasPrefix (Name record) ''_acme-challenge.''"
    and "GetRecords U p ctx zone st = ((existing, None), st1)"
  shows "AppendRecords_body U p ctx zone record st =
     (case matching record existing of
        [] \<Rightarrow> AppendRecords_add U p ctx zone record st1
      | cur # stale \<Rightarrow>
          (case AppendRecords_delete_stale U p ctx zone stale st1 of
             (Some err, st2) \<Rightarrow>
               (Inl (''failed to delete stale ACME challenge records: '' @ err), st2)
           | (None, st2) \<Rightarrow>
               (case do_UpdateRecord (the_client U p) ctx zone (ID cur) (Name record)
                       (Value record) (TTL record) st2 of
                  (Inl err, st3) \<Rightarrow> (Inl (''failed to update ACME challenge record: '' @ err), st3)
                | (Inr r, st3) \<Rightarrow> (Inr r, st3))))"
  using assms
  by (auto simp: AppendRecords_body_def scan_existing_matching AppendRecords_delete_stale_def
      split: list.splits prod.splits option.splits)

lemma AppendRecords_body_listing_failed:
  assumes "HasPrefix (Name record) ''_acme-challenge.''"
    and "GetRecords U p ctx zone st = ((existing, Some err), st1)"
  shows "AppendRecords_body U p ctx zone record st =
           (Inl (''failed to get existing records: '' @ err), st1)"
  using assms by (simp add: AppendRecords_body_def)

lemma AppendRecords_body_plain:
  "\<not> HasPrefix (Name record) ''_acme-challenge.'' \<Longrightarrow>
   AppendRecords_body U p ctx zone record st = AppendRecords_add U p ctx zone record st"
  by (simp add: AppendRecords_body_def)

lemma AppendRecords_body_reported:
  assumes "AppendRecords_body U p ctx zone record st = (r, st')"
  shows "reported (the_client U p) Append_error st (err_of r) st'"
proof (cases "HasPrefix (Name record) ''_acme-challenge.''")
  case False
  with assms show ?thesis by (simp add: AppendRecords_body_plain AppendRecords_add_reported)
next
  case True
  obtain existing e1 st1 where g: "GetRecords U p ctx zone st = ((existing, e1), st1)"
    by (metis prod.exhaust)
  note g1 = GetRecords_reported [OF g]
  show ?thesis
  proof (cases e1)
    case (Some err)
    with assms g1 AppendRecords_body_listing_failed [OF True g [unfolded Some]]
    show ?thesis by (auto simp: err_of_def)
  next
    case None
    note body = AppendRecords_body_acme [OF True g [unfolded None]]
    from g1 None have r1: "reported (the_client U p) Append_error st None st1" by simp
    show ?thesis
    proof (cases "matching record existing")
      case Nil
      with body assms have "AppendRecords_add U p ctx zone record st1 = (r, st')" by simp
      from r1 AppendRecords_add_reported [OF this] show ?thesis by (rule reported_trans)
    next
      case (Cons cur stale)
      obtain e2 st2 where d: "AppendRecords_delete_stale U p ctx zone stale st1 = (e2, st2)"
        by (metis prod.exhaust)
      note d1 = AppendRecords_delete_stale_reported [OF d]
      show ?thesis
      proof (cases e2)
        case (Some err)
        with body Cons d assms
        have "r = Inl (''failed to delete stale ACME challenge records: '' @ err)" "st' = st2"
          by auto
        with d1 Some r1 show ?thesis by (auto simp: err_of_def intro: reported_trans)
      next
        case None
        with d1 r1 have r2: "reported (the_client U p) Append_error st None st2"
          by (auto intro: reported_trans)
        obtain res st3 where u: "do_UpdateRecord (the_client U p) ctx zone (ID cur) (Name record)
            (Value record) (TTL record) st2 = (res, st3)"
          by (metis prod.exhaust)
        from body Cons d None u assms have "st' = st3"
          "err_of r = map_option ((@) ''failed to update ACME challenge record: '') (err_of res)"
          by (auto simp: err_of_def split: sum.splits)
        with do_UpdateRecord_reported [OF u, of Append_error
            "(@) ''failed to update ACME challenge record: ''"] r2
        show ?thesis by (auto intro: reported_trans)
      qed
    qed
  qed
qed

lemma run_batch_aborts_cleanly:
  assumes "\<And>x s r s'. f x s = (r, s') \<Longrightarrow> reported C msg s (err_of r) s'"
  shows "aborts_cleanly C msg s (run_batch f xs [] s)"
proof -
  obtain res err s' where r: "run_batch f xs [] s = ((res, err), s')"
    by (metis prod.exhaust)
  from run_batch_reported [OF assms r] run_batch_error_nil [of f xs "[]" s res _ s'] r
  show ?thesis by (auto simp: aborts_cleanly_def)
qed

subsection \<open>Batches that succeed, and the calls of a batch\<close>

lemma run_batch_success:
  "run_batch f xs acc s = ((res, None), s') \<Longrightarrow>
   \<exists>ys ss. res = acc @ ys \<and> length ys = length xs \<and> length ss = Suc (length xs) \<and>
     ss ! 0 = s \<and> ss ! length xs = s' \<and>
     (\<forall>i<length xs. f (xs ! i) (ss ! i) = (Inr (ys ! i), ss ! Suc i))"
proof (induction xs arbitrary: acc s)
  case Nil
  then show ?case by (auto intro: exI [of _ "[s]"])
next
  case (Cons x xs)
  from Cons.prems obtain y s1 where step: "f x s = (Inr y, s1)"
    and rest: "run_batch f xs (acc @ [y]) s1 = ((res, None), s')"
    by (auto split: prod.splits sum.splits)
  from Cons.IH [OF rest] obtain ys ss where
    ih: "res = (acc @ [y]) @ ys" "length ys = length xs" "length ss = Suc (length xs)"
      "ss ! 0 = s1" "ss ! length xs = s'"
      "\<forall>i<length xs. f (xs ! i) (ss ! i) = (Inr (ys ! i), ss ! Suc i)"
    by blast
  have "\<forall>i<length (x # xs). f ((x # xs) ! i) ((s # ss) ! i) = (Inr ((y # ys) ! i), (s # ss) ! Suc i)"
  proof (intro allI impI)
    fix i assume "i < length (x # xs)"
    then show "f ((x # xs) ! i) ((s # ss) ! i) = (Inr ((y # ys) ! i), (s # ss) ! Suc i)"
      using step ih(4,6) by (cases i) auto
  qed
  with ih show ?case
    by (intro exI [of _ "y # ys"] exI [of _ "s # ss"]) auto
qed

lemma run_batch_worlds:
  assumes "\<And>x s y s'. f x s = (Inr y, s') \<Longrightarrow> h x (fst s) = (Inr y, fst s')"
    and "run_batch f xs [] s = ((res, None), s')"
  shows "length res = length xs \<and>
     (\<exists>ws. length ws = Suc (length xs) \<and> ws ! 0 = fst s \<and> ws ! length xs = fst s' \<and>
        (\<forall>i<length xs. h (xs ! i) (ws ! i) = (Inr (res ! i), ws ! Suc i)))"
proof -
  from run_batch_success [OF assms(2)] obtain ss where
    ss: "length res = length xs" "length ss = Suc (length xs)" "ss ! 0 = s" "ss ! length xs = s'"
      "\<forall>i<length xs. f (xs ! i) (ss ! i) = (Inr (res ! i), ss ! Suc i)"
    by auto
  have "\<forall>i<length xs. h (xs ! i) (map fst ss ! i) = (Inr (res ! i), map fst ss ! Suc i)"
    using ss(2,5) assms(1) by simp
  with ss show ?thesis
    by (intro conjI exI [of _ "map fst ss"]) auto
qed

lemma run_batch_calls:
  assumes "\<And>x s r s'. f x s = (r, s') \<Longrightarrow> calls s' = calls s @ [g x]"
    and "run_batch f xs acc s = ((res, err), s')"
  shows "\<exists>k\<le>length xs. calls s' = calls s @ map g (take k xs) \<and> (err = None \<longrightarrow> k = length xs)"
  using assms(2)
proof (induction xs arbitrary: acc s)
  case Nil
  then show ?case by auto
next
  case (Cons x xs)
  obtain r s1 where step: "f x s = (r, s1)" by (cases "f x s")
  note c1 = assms(1) [OF step]
  show ?case
  proof (cases r)
    case (Inl e)
    with Cons.prems step c1 show ?thesis
      by (intro exI [of _ "Suc 0"]) auto
  next
    case (Inr y)
    with Cons.prems step have "run_batch f xs (acc @ [y]) s1 = ((res, err), s')" by simp
    from Cons.IH [OF this] obtain k where "k \<le> length xs"
      "calls s' = calls s1 @ map g (take k xs)" "err = None \<longrightarrow> k = length xs" by blast
    with c1 show ?thesis by (intro exI [of _ "Suc k"]) auto
  qed
qed

lemma DeleteRecords_body_call:
  "DeleteRecords_body U p ctx zone record st = (r, st') \<Longrightarrow>
   calls st' = calls st @ [DeleteRecordCall ctx zone (ID record)]"
  by (auto simp: DeleteRecords_body_def calls_def split: prod.splits sum.splits
      dest!: do_DeleteRecord_log)

lemma DeleteRecords_body_client:
  "DeleteRecords_body U p ctx zone record st = (Inr y, st') \<Longrightarrow>
   client_DeleteRecord (the_client U p) ctx zone (ID record) (fst st) = (Inr y, fst st')"
  by (auto simp: DeleteRecords_body_def split: prod.splits sum.splits dest!: do_DeleteRecord_log)

lemma GetRecords_calls:
  "GetRecords U p ctx zone st = (x, st1) \<Longrightarrow>
   calls st1 = calls st @ [GetRecordsCall ctx (trim_zone zone)]"
  by (auto simp: GetRecords_def calls_def split: prod.splits sum.splits dest!: do_GetRecords_log)

lemma DeleteRecords_success_calls:
  assumes "DeleteRecords U p ctx zone records st = ((res, None), st')"
  shows "calls st' = calls st @ map (\<lambda>r. DeleteRecordCall ctx (trim_zone zone) (ID r)) records"
proof -
  from assms have "run_batch (DeleteRecords_body U p ctx (trim_zone zone)) records [] st
      = ((res, None), st')"
    by (simp add: DeleteRecords_def DeleteRecords_loop_batch)
  from run_batch_calls [OF DeleteRecords_body_call this] show ?thesis by auto
qed

lemma AppendRecords_delete_stale_calls:
  assumes "AppendRecords_delete_stale U p ctx zone stale st = (None, st')"
  shows "calls st' = calls st @ map (\<lambda>r. DeleteRecordCall ctx (trim_zone zone) (ID r)) stale"
proof (cases "stale = []")
  case True
  with assms show ?thesis by (simp add: AppendRecords_delete_stale_def)
next
  case False
  with assms obtain res where "DeleteRecords U p ctx zone stale st = ((res, None), st')"
    by (auto simp: AppendRecords_delete_stale_def split: prod.splits)
  then show ?thesis by (rule DeleteRecords_success_calls)
qed

lemma do_UpdateRecord_calls:
  "do_UpdateRecord C ctx zone ident name val ttl st = (res, st') \<Longrightarrow>
   calls st' = calls st @ [UpdateRecordCall ctx zone ident name val ttl]"
  by (auto simp: calls_def dest!: do_UpdateRecord_log)

lemma do_AddRecord_calls:
  "do_AddRecord C ctx zone ty name val ttl st = (res, st') \<Longrightarrow>
   calls st' = calls st @ [AddRecordCall ctx zone ty name val ttl]"
  by (auto simp: calls_def dest!: do_AddRecord_log)

lemma AppendRecords_add_calls:
  "AppendRecords_add U p ctx zone record st = (r, st') \<Longrightarrow>
   calls st' = calls st @ [AddRecordCall ctx zone (Type record) (Name record) (Value record) (TTL record)]"
  by (auto simp: AppendRecords_add_def split: prod.splits sum.splits dest!: do_AddRecord_calls)


lemma AppendRecords_body_reconcile:
  assumes "HasPrefix (Name record) ''_acme-challenge.''"
    and "GetRecords U p ctx zone st = ((existing, None), st1)"
    and "matching record existing = cur # stale"
    and "AppendRecords_delete_stale U p ctx zone stale st1 = (None, st2)"
    and "do_UpdateRecord (the_client U p) ctx zone (ID cur) (Name record) (Value record)
           (TTL record) st2 = (res, st3)"
  shows "AppendRecords_body U p ctx zone record st =
           (case res of
              Inl err \<Rightarrow> Inl (''failed to update ACME challenge record: '' @ err)
            | Inr r \<Rightarrow> Inr r, st3)"
    and "calls st3 = calls st @ GetRecordsCall ctx (trim_zone zone) #
           map (\<lambda>s. DeleteRecordCall ctx (trim_zone zone) (ID s)) stale @
           [UpdateRecordCall ctx zone (ID cur) (Name record) (Value record) (TTL record)]"
proof -
  show "AppendRecords_body U p ctx zone record st =
           (case res of
              Inl err \<Rightarrow> Inl (''failed to update ACME challenge record: '' @ err)
            | Inr r \<Rightarrow> Inr r, st3)"
    using assms(3-5) by (simp add: AppendRecords_body_acme [OF assms(1,2)] split: sum.splits)
  show "calls st3 = calls st @ GetRecordsCall ctx (trim_zone zone) #
           map (\<lambda>s. DeleteRecordCall ctx (trim_zone zone) (ID s)) stale @
           [UpdateRecordCall ctx zone (ID cur) (Name record) (Value record) (TTL record)]"
    using GetRecords_calls [OF assms(2)] AppendRecords_delete_stale_calls [OF assms(4)]
      do_UpdateRecord_calls [OF assms(5)] by simp
qed

lemma reported_calls:
  "reported C msg st err st' \<Longrightarrow> \<exists>new. calls st' = calls st @ new"
  by (auto simp: reported_iff calls_def)

lemma AppendRecords_body_lists_first:
  assumes "HasPrefix (Name record) ''_acme-challenge.''"
    and "AppendRecords_body U p ctx zone record st = (out, st')"
  shows "\<exists>rest. calls st' = calls st @ GetRecordsCall ctx (trim_zone zone) # rest"
proof -
  obtain existing e1 st1 where g: "GetRecords U p ctx zone st = ((existing, e1), st1)"
    by (metis prod.exhaust)
  note c1 = GetRecords_calls [OF g]
  have "\<exists>new. calls st' = calls st1 @ new"
  proof (cases e1)
    case (Some err)
    with AppendRecords_body_listing_failed [OF assms(1), of U p ctx zone st existing err st1]
      g assms(2) show ?thesis by simp
  next
    case None
    note body = AppendRecords_body_acme [OF assms(1) g [unfolded None]]
    show ?thesis
    proof (cases "matching record existing")
      case Nil
      with body assms(2) have "AppendRecords_add U p ctx zone record st1 = (out, st')" by simp
      from AppendRecords_add_calls [OF this] show ?thesis by simp
    next
      case (Cons cur stale)
      obtain e2 st2 where d: "AppendRecords_delete_stale U p ctx zone stale st1 = (e2, st2)"
        by (metis prod.exhaust)
      from reported_calls [OF AppendRecords_delete_stale_reported [OF d]]
      obtain a where a: "calls st2 = calls st1 @ a" by blast
      show ?thesis
      proof (cases e2)
        case (Some err)
        with body Cons d assms(2) a show ?thesis by auto
      next
        case None
        obtain res st3 where u: "do_UpdateRecord (the_client U p) ctx zone (ID cur) (Name record)
            (Value record) (TTL record) st2 = (res, st3)"
          by (metis prod.exhaust)
        from body Cons d None u assms(2) have "st' = st3" by (auto split: sum.splits)
        with do_UpdateRecord_calls [OF u] a show ?thesis by simp
      qed
    qed
  qed
  with c1 show ?thesis by auto
qed

lemma AppendRecords_body_branch:
  assumes "AppendRecords_body U p ctx zone record st = (out, st')"
  shows "(HasPrefix (Name record) ''_acme-challenge.'' \<longrightarrow>
            (\<exists>rest. calls st' = calls st @ GetRecordsCall ctx (trim_zone zone) # rest) \<and>
            (\<forall>existing st1 cur stale st2.
               GetRecords U p ctx zone st = ((existing, None), st1) \<longrightarrow>
               matching record existing = cur # stale \<longrightarrow>
               AppendRecords_delete_stale U p ctx zone stale st1 = (None, st2) \<longrightarrow>
               calls st' = calls st @ GetRecordsCall ctx (trim_zone zone) #
                 map (\<lambda>s. DeleteRecordCall ctx (trim_zone zone) (ID s)) stale @
                 [UpdateRecordCall ctx zone (ID cur) (Name record) (Value record) (TTL record)])) \<and>
         (\<not> HasPrefix (Name record) ''_acme-challenge.'' \<longrightarrow>
            calls st' = calls st @
              [AddRecordCall ctx zone (Type record) (Name record) (Value record) (TTL record)])"
proof (intro conjI impI allI)
  assume np: "\<not> HasPrefix (Name record) ''_acme-challenge.''"
  with assms show "calls st' = calls st @
      [AddRecordCall ctx zone (Type record) (Name record) (Value record) (TTL record)]"
    by (simp add: AppendRecords_body_plain AppendRecords_add_calls)
next
  assume pre: "HasPrefix (Name record) ''_acme-challenge.''"
  from AppendRecords_body_lists_first [OF this assms]
  show "\<exists>rest. calls st' = calls st @ GetRecordsCall ctx (trim_zone zone) # rest" .
next
  fix existing st1 cur stale st2
  assume pre: "HasPrefix (Name record) ''_acme-challenge.''"
    and g: "GetRecords U p ctx zone st = ((existing, None), st1)"
    and m: "matching record existing = cur # stale"
    and d: "AppendRecords_delete_stale U p ctx zone stale st1 = (None, st2)"
  obtain res st3 where u: "do_UpdateRecord (the_client U p) ctx zone (ID cur) (Name record)
      (Value record) (TTL record) st2 = (res, st3)"
    by (metis prod.exhaust)
  from AppendRecords_body_reconcile [OF pre g m d u] assms
  show "calls st' = calls st @ GetRecordsCall ctx (trim_zone zone) #
      map (\<lambda>s. DeleteRecordCall ctx (trim_zone zone) (ID s)) stale @
      [UpdateRecordCall ctx zone (ID cur) (Name record) (Value record) (TTL record)]"
    by simp
qed

lemma AppendRecords_add_client:
  "AppendRecords_add U p ctx zone record st = (Inr y, st') \<Longrightarrow>
   client_AddRecord (the_client U p) ctx zone (Type record) (Name record) (Value record)
     (TTL record) (fst st) = (Inr y, fst st')"
  by (auto simp: AppendRecords_add_def split: prod.splits sum.splits dest!: do_AddRecord_log)

lemma AppendRecords_body_source:
  assumes "AppendRecords_body U p ctx zone record st = (Inr y, st')"
  shows "\<exists>w. client_AddRecord (the_client U p) ctx zone (Type record) (Name record)
                (Value record) (TTL record) w = (Inr y, fst st') \<or>
              HasPrefix (Name record) ''_acme-challenge.'' \<and>
              (\<exists>ident. client_UpdateRecord (the_client U p) ctx zone ident (Name record)
                 (Value record) (TTL record) w = (Inr y, fst st'))"
proof (cases "HasPrefix (Name record) ''_acme-challenge.''")
  case False
  with assms AppendRecords_add_client [of U p ctx zone "record" st y st'] show ?thesis
    by (auto simp: AppendRecords_body_plain)
next
  case True
  obtain existing e1 st1 where g: "GetRecords U p ctx zone st = ((existing, e1), st1)"
    by (metis prod.exhaust)
  show ?thesis
  proof (cases e1)
    case (Some err)
    with AppendRecords_body_listing_failed [OF True, of U p ctx zone st existing err st1] g assms
    show ?thesis by simp
  next
    case None
    note body = AppendRecords_body_acme [OF True g [unfolded None]]
    show ?thesis
    proof (cases "matching record existing")
      case Nil
      with body assms have "AppendRecords_add U p ctx zone record st1 = (Inr y, st')" by simp
      from AppendRecords_add_client [OF this] show ?thesis by blast
    next
      case (Cons cur stale)
      obtain e2 st2 where d: "AppendRecords_delete_stale U p ctx zone stale st1 = (e2, st2)"
        by (metis prod.exhaust)
      show ?thesis
      proof (cases e2)
        case (Some err)
        with body Cons d assms show ?thesis by simp
      next
        case None
        obtain res st3 where u: "do_UpdateRecord (the_client U p) ctx zone (ID cur) (Name record)
            (Value record) (TTL record) st2 = (res, st3)"
          by (metis prod.exhaust)
        from body Cons d None u assms have "st' = st3" "res = Inr y"
          by (auto split: sum.splits)
        with do_UpdateRecord_log [OF u] True show ?thesis by blast
      qed
    qed
  qed
qed

lemma DeleteRecords_batch:
  assumes "DeleteRecords U p ctx zone records st = ((res, err), st')"
  shows "\<exists>k\<le>length records.
           calls st' = calls st @
             map (\<lambda>r. DeleteRecordCall ctx (trim_zone zone) (ID r)) (take k records) \<and>
           (err = None \<longrightarrow>
              k = length records \<and> length res = length records \<and>
              (\<exists>ws. length ws = Suc (length records) \<and> ws ! 0 = fst st \<and>
                 ws ! length records = fst st' \<and>
                 (\<forall>i<length records.
                    client_DeleteRecord (the_client U p) ctx (trim_zone zone) (ID (records ! i))
                      (ws ! i) = (Inr (res ! i), ws ! Suc i))))"
proof -
  from assms have r: "run_batch (DeleteRecords_body U p ctx (trim_zone zone)) records [] st
      = ((res, err), st')"
    by (simp add: DeleteRecords_def DeleteRecords_loop_batch)
  have "\<exists>k\<le>length records.
      calls st' = calls st @
         map (\<lambda>r. DeleteRecordCall ctx (trim_zone zone) (ID r)) (take k records) \<and>
      (err = None \<longrightarrow> k = length records)"
    by (rule run_batch_calls [where f = "DeleteRecords_body U p ctx (trim_zone zone)", OF _ r])
       (rule DeleteRecords_body_call)
  then obtain k where
    k: "k \<le> length records"
      "calls st' = calls st @
         map (\<lambda>r. DeleteRecordCall ctx (trim_zone zone) (ID r)) (take k records)"
      "err = None \<longrightarrow> k = length records"
    by blast
  have "err = None \<longrightarrow> length res = length records \<and>
              (\<exists>ws. length ws = Suc (length records) \<and> ws ! 0 = fst st \<and>
                 ws ! length records = fst st' \<and>
                 (\<forall>i<length records.
                    client_DeleteRecord (the_client U p) ctx (trim_zone zone) (ID (records ! i))
                      (ws ! i) = (Inr (res ! i), ws ! Suc i)))"
  proof
    assume "err = None"
    with r have "run_batch (DeleteRecords_body U p ctx (trim_zone zone)) records [] st
      = ((res, None), st')" by simp
    then show "length res = length records \<and>
              (\<exists>ws. length ws = Suc (length records) \<and> ws ! 0 = fst st \<and>
                 ws ! length records = fst st' \<and>
                 (\<forall>i<length records.
                    client_DeleteRecord (the_client U p) ctx (trim_zone zone) (ID (records ! i))
                      (ws ! i) = (Inr (res ! i), ws ! Suc i)))"
      by (rule run_batch_worlds [where f = "DeleteRecords_body U p ctx (trim_zone zone)"
            and h = "\<lambda>r. client_DeleteRecord (the_client U p) ctx (trim_zone zone) (ID r)", rotated])
         (rule DeleteRecords_body_client)
  qed
  with k show ?thesis by blast
qed

lemma error_messages_wrap:
  "Append_error c cause = Some m \<or> Set_error c cause = Some m \<or> Delete_error c cause = Some m
   \<Longrightarrow> wraps m cause"
  by (cases c) (auto simp: wraps_def HasSuffix_def)

lemma AppendRecords_listing_failed:
  assumes "HasPrefix (Name record) ''_acme-challenge.''"
    and "client_GetRecords (the_client U p) ctx (trim_zone (trim_zone zone)) (fst st) = (Inl cause, w')"
  shows "AppendRecords U p ctx zone (record # records) st =
           (([], Some (''failed to get existing records: '' @ cause)),
            (w', snd st @ [(GetRecordsCall ctx (trim_zone (trim_zone zone)), Some cause)]))"
proof -
  from assms(2) have "GetRecords U p ctx (trim_zone zone) st = (([], Some cause),
      (w', snd st @ [(GetRecordsCall ctx (trim_zone (trim_zone zone)), Some cause)]))"
    by (simp add: GetRecords_def do_GetRecords_def err_of_def)
  from AppendRecords_body_listing_failed [OF assms(1) this] show ?thesis
    by (simp add: AppendRecords_def)
qed

subsection \<open>A batch split at one of its records\<close>

lemma run_batch_acc:
  "run_batch f xs acc s = continue_with acc (run_batch f xs [] s)"
proof (induction xs arbitrary: acc s)
  case Nil
  then show ?case by (simp add: continue_with_def)
next
  case (Cons x xs)
  show ?case
  proof (cases "f x s")
    case (Pair r s1)
    show ?thesis
    proof (cases r)
      case (Inl e)
      with Pair show ?thesis by (simp add: continue_with_def)
    next
      case (Inr y)
      have "run_batch f xs (acc @ [y]) s1 = continue_with (acc @ [y]) (run_batch f xs [] s1)"
        by (rule Cons.IH)
      moreover have "run_batch f xs ([] @ [y]) s1 = continue_with ([] @ [y]) (run_batch f xs [] s1)"
        by (rule Cons.IH)
      ultimately show ?thesis using Pair Inr
        by (auto simp: continue_with_def split: prod.splits option.splits)
    qed
  qed
qed

lemma run_batch_append:
  "run_batch f (xs @ ys) acc s =
     (case run_batch f xs acc s of
        ((rs, Some e), s') \<Rightarrow> (([], Some e), s')
      | ((rs, None), s') \<Rightarrow> run_batch f ys rs s')"
  by (induction xs arbitrary: acc s) (auto split: prod.splits sum.splits)

lemma run_batch_split:
  assumes "run_batch f xs [] s = ((rs, None), s1)"
  shows "run_batch f (xs @ x # ys) [] s =
           (case f x s1 of
              (Inl e, s2) \<Rightarrow> (([], Some e), s2)
            | (Inr y, s2) \<Rightarrow> continue_with (rs @ [y]) (run_batch f ys [] s2))"
proof -
  have "run_batch f (xs @ x # ys) [] s = run_batch f (x # ys) rs s1"
    using assms by (simp add: run_batch_append)
  also have "\<dots> = (case f x s1 of
              (Inl e, s2) \<Rightarrow> (([], Some e), s2)
            | (Inr y, s2) \<Rightarrow> run_batch f ys (rs @ [y]) s2)"
    by simp
  also have "\<dots> = (case f x s1 of
              (Inl e, s2) \<Rightarrow> (([], Some e), s2)
            | (Inr y, s2) \<Rightarrow> continue_with (rs @ [y]) (run_batch f ys [] s2))"
    by (simp add: run_batch_acc [of f ys "rs @ [y]" for y] split: prod.splits sum.splits)
  finally show ?thesis .
qed

lemma run_batch_length:
  "run_batch f xs [] s = ((rs, None), s1) \<Longrightarrow> length rs = length xs"
  using run_batch_success [of f xs "[]" s rs s1] by auto

lemma continue_with_nth:
  "continue_with (rs @ [r]) out = ((res, None), s') \<Longrightarrow> res ! length rs = r"
  by (auto simp: continue_with_def split: prod.splits option.splits)

lemma AppendRecords_split:
  assumes "AppendRecords U p ctx zone pre st0 = ((rs, None), st)"
  shows "AppendRecords U p ctx zone (pre @ record # post) st0 =
           (case AppendRecords_body U p ctx (trim_zone zone) record st of
              (Inl e, st') \<Rightarrow> (([], Some e), st')
            | (Inr r, st') \<Rightarrow> continue_with (rs @ [r]) (AppendRecords U p ctx zone post st'))"
    and "length rs = length pre"
  using assms unfolding AppendRecords_def AppendRecords_loop_batch
  by (rule run_batch_split, rule run_batch_length)





lemma AppendRecords_upto:
  assumes "AppendRecords U p ctx zone pre st0 = ((rs, None), st)"
    and "AppendRecords U p ctx zone (pre @ [record]) st0 = (out, st')"
  shows "AppendRecords_body U p ctx (trim_zone zone) record st =
           (case snd out of Some e \<Rightarrow> Inl e | None \<Rightarrow> Inr (last (fst out)), st')"
    and "AppendRecords U p ctx zone (pre @ record # post) st0 =
           (case out of
              (x, Some e) \<Rightarrow> ((x, Some e), st')
            | (rs', None) \<Rightarrow> continue_with rs' (AppendRecords U p ctx zone post st'))"
proof -
  obtain b s1 where b: "AppendRecords_body U p ctx (trim_zone zone) record st = (b, s1)"
    by (metis prod.exhaust)
  have nil: "\<And>s. AppendRecords U p ctx zone [] s = (([], None), s)"
    by (simp add: AppendRecords_def)
  from AppendRecords_split(1) [OF assms(1), of "record" "[]"] b assms(2)
  have o: "(out, st') = (case b of Inl e \<Rightarrow> (([], Some e), s1) | Inr r \<Rightarrow> ((rs @ [r], None), s1))"
    by (simp add: nil continue_with_def split: sum.splits)
  from o b show "AppendRecords_body U p ctx (trim_zone zone) record st =
           (case snd out of Some e \<Rightarrow> Inl e | None \<Rightarrow> Inr (last (fst out)), st')"
    by (cases b) auto
  from o b AppendRecords_split(1) [OF assms(1), of "record" post]
  show "AppendRecords U p ctx zone (pre @ record # post) st0 =
           (case out of
              (x, Some e) \<Rightarrow> ((x, Some e), st')
            | (rs', None) \<Rightarrow> continue_with rs' (AppendRecords U p ctx zone post st'))"
    by (cases b) auto
qed

lemma run_batch_at:
  assumes pre: "run_batch f pre [] s0 = ((rs, None), s)"
    and body: "f x s = (case res of Inl err \<Rightarrow> Inl (m @ err) | Inr r \<Rightarrow> Inr r, s2)"
  shows "run_batch f (pre @ x # post) [] s0 =
           (case res of
              Inl err \<Rightarrow> (([], Some (m @ err)), s2)
            | Inr r \<Rightarrow> continue_with (rs @ [r]) (run_batch f post [] s2))"
    and "length rs = length pre"
    and "\<forall>out s'. run_batch f (pre @ x # post) [] s0 = ((out, None), s')
           \<longrightarrow> res = Inr (out ! length pre)"
proof -
  show eq: "run_batch f (pre @ x # post) [] s0 =
           (case res of
              Inl err \<Rightarrow> (([], Some (m @ err)), s2)
            | Inr r \<Rightarrow> continue_with (rs @ [r]) (run_batch f post [] s2))"
    using run_batch_split [OF pre, of x post] body by (simp split: sum.splits)
  show len: "length rs = length pre" using pre by (rule run_batch_length)
  show "\<forall>out s'. run_batch f (pre @ x # post) [] s0 = ((out, None), s')
           \<longrightarrow> res = Inr (out ! length pre)"
  proof (intro allI impI)
    fix out s'
    assume a: "run_batch f (pre @ x # post) [] s0 = ((out, None), s')"
    show "res = Inr (out ! length pre)"
    proof (cases res)
      case (Inl e)
      with eq a show ?thesis by simp
    next
      case (Inr r)
      with eq a have "continue_with (rs @ [r]) (run_batch f post [] s2) = ((out, None), s')"
        by simp
      from continue_with_nth [OF this] len Inr show ?thesis by simp
    qed
  qed
qed

lemma SetRecords_body_eq:
  assumes "Set_client (the_client U p) ctx zone record (fst st) = (res, w')"
  shows "SetRecords_body U p ctx zone record st =
     (case res of
        Inl err \<Rightarrow> Inl ((if ID record = [] then ''failed to add record: ''
                          else ''failed to update record: '') @ err)
      | Inr r \<Rightarrow> Inr r,
      (w', snd st @ [(Set_call ctx zone record, err_of res)]))"
  using assms
  by (auto simp: SetRecords_body_def Set_client_def Set_call_def do_AddRecord_def
      do_UpdateRecord_def err_of_def split: sum.splits)

lemma DeleteRecords_body_eq:
  assumes "client_DeleteRecord (the_client U p) ctx zone (ID record) (fst st) = (res, w')"
  shows "DeleteRecords_body U p ctx zone record st =
     (case res of
        Inl err \<Rightarrow> Inl (''failed to delete record: '' @ err)
      | Inr r \<Rightarrow> Inr r,
      (w', snd st @ [(DeleteRecordCall ctx zone (ID record), err_of res)]))"
  using assms
  by (auto simp: DeleteRecords_body_def do_DeleteRecord_def err_of_def split: sum.splits)

section \<open>The properties\<close>

subsection \<open>C1: an ACME candidate with several matching records\<close>




subsection \<open>C2: an ACME candidate with exactly one matching record\<close>




subsection \<open>C3: candidates that are created\<close>




subsection \<open>C4: the result of a successful append\<close>

text \<open>
  C4. When \<^verbatim>\<open>AppendRecords\<close> returns no error, the result has one record for each
  candidate, in the order of the candidates: there are remote states \<open>ss\<close>, from the initial
  one to the final one, such that the record at position \<open>i\<close> is what the loop body yields for
  candidate \<open>i\<close> in state \<open>ss ! i\<close>, leaving state \<open>ss ! Suc i\<close>; and that record is what the
  remote returned from a create call for the candidate or, for a candidate with the ACME
  prefix, from an update call with the candidate's name, value and TTL.
\<close>

theorem AppendRecords_result_order:
  assumes "AppendRecords U p ctx zone records st = ((res, None), st')"
  shows "length res = length records \<and>
     (\<exists>ss. length ss = Suc (length records) \<and> ss ! 0 = st \<and> ss ! length records = st' \<and>
        (\<forall>i<length records.
           AppendRecords_body U p ctx (trim_zone zone) (records ! i) (ss ! i)
             = (Inr (res ! i), ss ! Suc i) \<and>
           (\<exists>w. client_AddRecord (the_client U p) ctx (trim_zone zone) (Type (records ! i))
                   (Name (records ! i)) (Value (records ! i)) (TTL (records ! i)) w
                   = (Inr (res ! i), fst (ss ! Suc i)) \<or>
                 HasPrefix (Name (records ! i)) ''_acme-challenge.'' \<and>
                 (\<exists>ident. client_UpdateRecord (the_client U p) ctx (trim_zone zone) ident
                    (Name (records ! i)) (Value (records ! i)) (TTL (records ! i)) w
                    = (Inr (res ! i), fst (ss ! Suc i))))))"
proof -
  from assms have "run_batch (AppendRecords_body U p ctx (trim_zone zone)) records [] st
      = ((res, None), st')"
    by (simp add: AppendRecords_def AppendRecords_loop_batch)
  from run_batch_success [OF this] obtain ss where
    ss: "length res = length records" "length ss = Suc (length records)" "ss ! 0 = st"
      "ss ! length records = st'"
      "\<forall>i<length records. AppendRecords_body U p ctx (trim_zone zone) (records ! i) (ss ! i)
          = (Inr (res ! i), ss ! Suc i)"
    by auto
  have "\<forall>i<length records.
           AppendRecords_body U p ctx (trim_zone zone) (records ! i) (ss ! i)
             = (Inr (res ! i), ss ! Suc i) \<and>
           (\<exists>w. client_AddRecord (the_client U p) ctx (trim_zone zone) (Type (records ! i))
                   (Name (records ! i)) (Value (records ! i)) (TTL (records ! i)) w
                   = (Inr (res ! i), fst (ss ! Suc i)) \<or>
                 HasPrefix (Name (records ! i)) ''_acme-challenge.'' \<and>
                 (\<exists>ident. client_UpdateRecord (the_client U p) ctx (trim_zone zone) ident
                    (Name (records ! i)) (Value (records ! i)) (TTL (records ! i)) w
                    = (Inr (res ! i), fst (ss ! Suc i))))"
  proof (intro allI impI)
    fix i assume "i < length records"
    with ss(5) have b: "AppendRecords_body U p ctx (trim_zone zone) (records ! i) (ss ! i)
             = (Inr (res ! i), ss ! Suc i)" by simp
    from b AppendRecords_body_source [OF b]
    show "AppendRecords_body U p ctx (trim_zone zone) (records ! i) (ss ! i)
             = (Inr (res ! i), ss ! Suc i) \<and>
           (\<exists>w. client_AddRecord (the_client U p) ctx (trim_zone zone) (Type (records ! i))
                   (Name (records ! i)) (Value (records ! i)) (TTL (records ! i)) w
                   = (Inr (res ! i), fst (ss ! Suc i)) \<or>
                 HasPrefix (Name (records ! i)) ''_acme-challenge.'' \<and>
                 (\<exists>ident. client_UpdateRecord (the_client U p) ctx (trim_zone zone) ident
                    (Name (records ! i)) (Value (records ! i)) (TTL (records ! i)) w
                    = (Inr (res ! i), fst (ss ! Suc i))))"
      by (rule conjI)
  qed
  with ss(1-4) show ?thesis by blast
qed

text \<open>A batch of an ACME candidate that is updated and an A record that is created.\<close>

theorem AppendRecords_result_order_witness:
  "AppendRecords mock_UseClient mock_provider () ''example.com''
     [mk_record [] ''TXT'' ''_acme-challenge.example.com'' ''new'',
      mk_record [] ''A'' ''www.example.com'' ''192.0.2.1'']
     ([mk_record ''1'' ''TXT'' ''_acme-challenge.example.com'' ''old''], [])
   = (([mk_record ''1'' ''TXT'' ''_acme-challenge.example.com'' ''new'',
        mk_record ''n+'' ''A'' ''www.example.com'' ''192.0.2.1''], None),
      ([mk_record ''1'' ''TXT'' ''_acme-challenge.example.com'' ''new'',
        mk_record ''n+'' ''A'' ''www.example.com'' ''192.0.2.1''],
       [(GetRecordsCall () ''example.com'', None),
        (UpdateRecordCall () ''example.com'' ''1'' ''_acme-challenge.example.com'' ''new'' 60, None),
        (AddRecordCall () ''example.com'' ''A'' ''www.example.com'' ''192.0.2.1'' 60, None)])) \<and>
   (\<exists>ss. length ss = 3 \<and>
      AppendRecords_body mock_UseClient mock_provider () ''example.com''
        (mk_record [] ''TXT'' ''_acme-challenge.example.com'' ''new'') (ss ! 0)
        = (Inr (mk_record ''1'' ''TXT'' ''_acme-challenge.example.com'' ''new''), ss ! 1) \<and>
      AppendRecords_body mock_UseClient mock_provider () ''example.com''
        (mk_record [] ''A'' ''www.example.com'' ''192.0.2.1'') (ss ! 1)
        = (Inr (mk_record ''n+'' ''A'' ''www.example.com'' ''192.0.2.1''), ss ! 2))"
proof -
  let ?cand = "mk_record [] ''TXT'' ''_acme-challenge.example.com'' ''new''"
  let ?www = "mk_record [] ''A'' ''www.example.com'' ''192.0.2.1''"
  let ?r1 = "mk_record ''1'' ''TXT'' ''_acme-challenge.example.com'' ''old''"
  let ?r1' = "mk_record ''1'' ''TXT'' ''_acme-challenge.example.com'' ''new''"
  let ?www' = "mk_record ''n+'' ''A'' ''www.example.com'' ''192.0.2.1''"
  let ?st' = "([?r1', ?www'],
       [(GetRecordsCall () ''example.com'', None),
        (UpdateRecordCall () ''example.com'' ''1'' ''_acme-challenge.example.com'' ''new'' 60, None),
        (AddRecordCall () ''example.com'' ''A'' ''www.example.com'' ''192.0.2.1'' 60, None)])"
  have h: "AppendRecords mock_UseClient mock_provider () ''example.com'' [?cand, ?www] ([?r1], [])
      = (([?r1', ?www'], None), ?st')"
    by (simp add: eval_defs)
  have z: "trim_zone ''example.com'' = ''example.com''"
    by (simp add: trim_zone_def HasSuffix_def)
  from AppendRecords_result_order [OF h] obtain ss where
    ss: "length ss = Suc (length [?cand, ?www])"
      "\<forall>i<length [?cand, ?www].
         AppendRecords_body mock_UseClient mock_provider () (trim_zone ''example.com'')
           ([?cand, ?www] ! i) (ss ! i) = (Inr ([?r1', ?www'] ! i), ss ! Suc i)"
    by blast
  have b0: "AppendRecords_body mock_UseClient mock_provider () (trim_zone ''example.com'')
      ?cand (ss ! 0) = (Inr ?r1', ss ! 1)"
    using ss(2) [rule_format, of 0] by simp
  have b1: "AppendRecords_body mock_UseClient mock_provider () (trim_zone ''example.com'')
      ?www (ss ! 1) = (Inr ?www', ss ! 2)"
    using ss(2) [rule_format, of 1] by (simp add: numeral_2_eq_2)
  from ss(1) b0 b1 z have "length ss = 3 \<and>
      AppendRecords_body mock_UseClient mock_provider () ''example.com'' ?cand (ss ! 0)
        = (Inr ?r1', ss ! 1) \<and>
      AppendRecords_body mock_UseClient mock_provider () ''example.com'' ?www (ss ! 1)
        = (Inr ?www', ss ! 2)"
    by simp
  then have "\<exists>ss. length ss = 3 \<and>
      AppendRecords_body mock_UseClient mock_provider () ''example.com'' ?cand (ss ! 0)
        = (Inr ?r1', ss ! 1) \<and>
      AppendRecords_body mock_UseClient mock_provider () ''example.com'' ?www (ss ! 1)
        = (Inr ?www', ss ! 2)" ..
  with h show ?thesis by (rule conjI)
qed

subsection \<open>C5: a trailing dot on the zone name\<close>

text \<open>
  C5, amended. For a zone name \<open>z\<close> that does not itself end in a dot, each of the four
  operations called with \<open>z\<close> followed by a dot returns the same records, the same error and
  the same remote state, log of calls included, as called with \<open>z\<close>. The operations strip a
  single dot, so the restriction on \<open>z\<close> is needed.
\<close>

theorem trailing_dot_ignored:
  assumes "\<not> HasSuffix z ''.''"
  shows "GetRecords U p ctx (z @ ''.'') st = GetRecords U p ctx z st \<and>
         AppendRecords U p ctx (z @ ''.'') records st = AppendRecords U p ctx z records st \<and>
         SetRecords U p ctx (z @ ''.'') records st = SetRecords U p ctx z records st \<and>
         DeleteRecords U p ctx (z @ ''.'') records st = DeleteRecords U p ctx z records st"
  using assms
  by (simp add: GetRecords_def AppendRecords_def SetRecords_def DeleteRecords_def
      trim_zone_dot trim_zone_id)

text \<open>The zone \<open>example.com\<close>.\<close>

theorem trailing_dot_ignored_witness:
  "\<not> HasSuffix ''example.com'' ''.'' \<and>
   GetRecords mock_UseClient mock_provider () (''example.com'' @ ''.'') ([], [])
     = GetRecords mock_UseClient mock_provider () ''example.com'' ([], []) \<and>
   AppendRecords mock_UseClient mock_provider () (''example.com'' @ ''.'')
       [mk_record [] ''A'' ''www.example.com'' ''192.0.2.1''] ([], [])
     = AppendRecords mock_UseClient mock_provider () ''example.com''
       [mk_record [] ''A'' ''www.example.com'' ''192.0.2.1''] ([], [])"
proof -
  have h: "\<not> HasSuffix ''example.com'' ''.''" by (simp add: HasSuffix_def)
  from h trailing_dot_ignored [OF h, where U = mock_UseClient and p = mock_provider
      and ctx = "()" and st = "([], [])"
      and records = "[mk_record [] ''A'' ''www.example.com'' ''192.0.2.1'']"]
  show ?thesis by simp
qed

text \<open>
  Without the restriction the property fails: for \<open>z = example.com.\<close> the listing is asked
  for the zone \<open>example.com.\<close> when the argument is \<open>z\<close> followed by a dot, and for
  \<open>example.com\<close> when it is \<open>z\<close>.
\<close>

theorem trailing_dot_counterexample:
  "GetRecords mock_UseClient mock_provider () (''example.com.'' @ ''.'') ([], [])
     \<noteq> GetRecords mock_UseClient mock_provider () ''example.com.'' ([], [])"
  by (simp add: eval_defs)

subsection \<open>C6: the calls of SetRecords\<close>

text \<open>
  C6, amended. A record that \<^verbatim>\<open>SetRecords\<close> reaches (the records \<open>pre\<close> before it
  were processed without error and left the remote in state \<open>st\<close>). Exactly one remote call
  is made for it, \<open>Set_call\<close>: a create call with the record's type, name, value and TTL when
  its identifier is empty, an update call on its identifier otherwise, whatever the record's
  name. If that call fails the operation returns its error and no records; otherwise the
  record the remote returned stands in the result at the record's position, and the
  operation goes on with the remaining records.
\<close>

theorem SetRecords_calls:
  assumes "SetRecords U p ctx zone pre st0 = ((rs, None), st)"
    and "Set_client (the_client U p) ctx (trim_zone zone) record (fst st) = (res, w')"
    and "st2 = (w', snd st @ [(Set_call ctx (trim_zone zone) record, err_of res)])"
  shows "SetRecords U p ctx zone (pre @ record # post) st0 =
           (case res of
              Inl err \<Rightarrow>
                (([], Some ((if ID record = [] then ''failed to add record: ''
                             else ''failed to update record: '') @ err)), st2)
            | Inr r \<Rightarrow> continue_with (rs @ [r]) (SetRecords U p ctx zone post st2)) \<and>
         length rs = length pre \<and>
         calls st2 = calls st @ [Set_call ctx (trim_zone zone) record] \<and>
         (\<forall>out st'. SetRecords U p ctx zone (pre @ record # post) st0 = ((out, None), st')
            \<longrightarrow> res = Inr (out ! length pre))"
proof -
  from assms(1) have pre: "run_batch (SetRecords_body U p ctx (trim_zone zone)) pre [] st0
      = ((rs, None), st)"
    by (simp add: SetRecords_def SetRecords_loop_batch)
  note b = SetRecords_body_eq [OF assms(2), folded assms(3)]
  note a = run_batch_at(1) [OF pre b, of post, folded SetRecords_loop_batch SetRecords_def]
    run_batch_at(2) [OF pre b]
    run_batch_at(3) [OF pre b, of post, folded SetRecords_loop_batch SetRecords_def]
  have "calls st2 = calls st @ [Set_call ctx (trim_zone zone) record]"
    by (simp add: assms(3) calls_def)
  with a show ?thesis by simp
qed

text \<open>A batch of a record without identifier, under an ACME name, and a record with
  identifier 1: one creation, one update.\<close>

theorem SetRecords_calls_witness:
  "SetRecords mock_UseClient mock_provider () ''example.com.''
     [mk_record [] ''TXT'' ''_acme-challenge.example.com'' ''new'',
      mk_record ''1'' ''A'' ''www.example.com'' ''192.0.2.2'']
     ([mk_record ''1'' ''A'' ''www.example.com'' ''192.0.2.1''], [])
   = (([mk_record ''n+'' ''TXT'' ''_acme-challenge.example.com'' ''new'',
        mk_record ''1'' ''A'' ''www.example.com'' ''192.0.2.2''], None),
      ([mk_record ''1'' ''A'' ''www.example.com'' ''192.0.2.2'',
        mk_record ''n+'' ''TXT'' ''_acme-challenge.example.com'' ''new''],
       [(AddRecordCall () ''example.com'' ''TXT'' ''_acme-challenge.example.com'' ''new'' 60, None),
        (UpdateRecordCall () ''example.com'' ''1'' ''www.example.com'' ''192.0.2.2'' 60, None)]))"
proof -
  let ?new = "mk_record [] ''TXT'' ''_acme-challenge.example.com'' ''new''"
  let ?new' = "mk_record ''n+'' ''TXT'' ''_acme-challenge.example.com'' ''new''"
  let ?upd = "mk_record ''1'' ''A'' ''www.example.com'' ''192.0.2.2''"
  let ?a1 = "mk_record ''1'' ''A'' ''www.example.com'' ''192.0.2.1''"
  let ?a = "(AddRecordCall () ''example.com'' ''TXT'' ''_acme-challenge.example.com'' ''new'' 60, None)"
  let ?u = "(UpdateRecordCall () ''example.com'' ''1'' ''www.example.com'' ''192.0.2.2'' 60, None)"
  have h0: "SetRecords mock_UseClient mock_provider () ''example.com.'' [?new] ([?a1], [])
      = (([?new'], None), ([?a1, ?new'], [?a]))"
    by (simp add: eval_defs)
  have h1: "Set_client (the_client mock_UseClient mock_provider) () (trim_zone ''example.com.'')
      ?upd (fst ([?a1, ?new'], [?a])) = (Inr ?upd, [?upd, ?new'])"
    by (simp add: eval_defs Set_client_def)
  have h2: "([?upd, ?new'], [?a, ?u]) = ([?upd, ?new'], snd ([?a1, ?new'], [?a]) @
      [(Set_call () (trim_zone ''example.com.'') ?upd, err_of (Inr ?upd))])"
    by (simp add: eval_defs Set_call_def)
  note t = SetRecords_calls [OF h0 h1 h2, of "[]", THEN conjunct1]
  from t have e: "SetRecords mock_UseClient mock_provider () ''example.com.'' [?new, ?upd]
      ([?a1], [])
      = continue_with [?new', ?upd]
          (SetRecords mock_UseClient mock_provider () ''example.com.'' []
             ([?upd, ?new'], [?a, ?u]))"
    by simp
  have n: "SetRecords mock_UseClient mock_provider () ''example.com.'' []
      ([?upd, ?new'], [?a, ?u]) = (([], None), ([?upd, ?new'], [?a, ?u]))"
    by (simp add: SetRecords_def)
  from e n show ?thesis by (simp add: continue_with_def)
qed

text \<open>
  For every record of every call, as C6 is worded, the property fails: when the update of the
  second record fails, the third record gets no call, and the record created for the first is
  not in the result, which is empty.
\<close>

theorem SetRecords_calls_counterexample:
  "SetRecords mock_UseClient mock_provider () ''example.com''
     [mk_record [] ''A'' ''www.example.com'' ''192.0.2.1'',
      mk_record ''9'' ''A'' ''www.example.com'' ''192.0.2.2'',
      mk_record [] ''A'' ''ftp.example.com'' ''192.0.2.3''] ([], [])
   = (([], Some ''failed to update record: record not found''),
      ([mk_record ''n'' ''A'' ''www.example.com'' ''192.0.2.1''],
       [(AddRecordCall () ''example.com'' ''A'' ''www.example.com'' ''192.0.2.1'' 60, None),
        (UpdateRecordCall () ''example.com'' ''9'' ''www.example.com'' ''192.0.2.2'' 60,
           Some ''record not found'')]))"
  by (simp add: eval_defs)

subsection \<open>C7: the calls of DeleteRecords\<close>

text \<open>
  C7, amended. A record that \<^verbatim>\<open>DeleteRecords\<close> reaches (the records \<open>pre\<close> before it
  were deleted without error and left the remote in state \<open>st\<close>). Exactly one remote delete
  call is made for it, keyed by its identifier. If that call fails the operation returns its
  error and no records; otherwise the record the remote returned stands in the result at the
  record's position, and the operation goes on with the remaining records. And when a call
  returns no error, every record of the batch was reached: the calls are one deletion for
  each record, in the order of the batch, and the result holds, in that order, the record the
  remote returned for each, the remote world going from \<open>ws ! i\<close> to \<open>ws ! Suc i\<close> at
  record \<open>i\<close>.
\<close>

theorem DeleteRecords_calls:
  assumes "DeleteRecords U p ctx zone pre st0 = ((rs, None), st)"
    and "client_DeleteRecord (the_client U p) ctx (trim_zone zone) (ID record) (fst st) = (res, w')"
    and "st2 = (w', snd st @ [(DeleteRecordCall ctx (trim_zone zone) (ID record), err_of res)])"
  shows "DeleteRecords U p ctx zone (pre @ record # post) st0 =
           (case res of
              Inl err \<Rightarrow> (([], Some (''failed to delete record: '' @ err)), st2)
            | Inr r \<Rightarrow> continue_with (rs @ [r]) (DeleteRecords U p ctx zone post st2)) \<and>
         length rs = length pre \<and>
         calls st2 = calls st @ [DeleteRecordCall ctx (trim_zone zone) (ID record)] \<and>
         (\<forall>out st'. DeleteRecords U p ctx zone (pre @ record # post) st0 = ((out, None), st')
            \<longrightarrow> res = Inr (out ! length pre)) \<and>
         (\<forall>records s out s'. DeleteRecords U p ctx zone records s = ((out, None), s') \<longrightarrow>
            length out = length records \<and>
            calls s' = calls s @
              map (\<lambda>r. DeleteRecordCall ctx (trim_zone zone) (ID r)) records \<and>
            (\<exists>ws. length ws = Suc (length records) \<and> ws ! 0 = fst s \<and>
               ws ! length records = fst s' \<and>
               (\<forall>i<length records.
                  client_DeleteRecord (the_client U p) ctx (trim_zone zone) (ID (records ! i))
                    (ws ! i) = (Inr (out ! i), ws ! Suc i))))"
proof -
  from assms(1) have pre: "run_batch (DeleteRecords_body U p ctx (trim_zone zone)) pre [] st0
      = ((rs, None), st)"
    by (simp add: DeleteRecords_def DeleteRecords_loop_batch)
  note b = DeleteRecords_body_eq [OF assms(2), folded assms(3)]
  note a = run_batch_at(1) [OF pre b, of post, folded DeleteRecords_loop_batch DeleteRecords_def]
    run_batch_at(2) [OF pre b]
    run_batch_at(3) [OF pre b, of post, folded DeleteRecords_loop_batch DeleteRecords_def]
  have c: "calls st2 = calls st @ [DeleteRecordCall ctx (trim_zone zone) (ID record)]"
    by (simp add: assms(3) calls_def)
  have w: "\<forall>records s out s'. DeleteRecords U p ctx zone records s = ((out, None), s') \<longrightarrow>
            length out = length records \<and>
            calls s' = calls s @
              map (\<lambda>r. DeleteRecordCall ctx (trim_zone zone) (ID r)) records \<and>
            (\<exists>ws. length ws = Suc (length records) \<and> ws ! 0 = fst s \<and>
               ws ! length records = fst s' \<and>
               (\<forall>i<length records.
                  client_DeleteRecord (the_client U p) ctx (trim_zone zone) (ID (records ! i))
                    (ws ! i) = (Inr (out ! i), ws ! Suc i)))"
  proof (intro allI impI)
    fix records s out s'
    assume d: "DeleteRecords U p ctx zone records s = ((out, None), s')"
    from DeleteRecords_batch [OF d] DeleteRecords_success_calls [OF d]
    show "length out = length records \<and>
            calls s' = calls s @
              map (\<lambda>r. DeleteRecordCall ctx (trim_zone zone) (ID r)) records \<and>
            (\<exists>ws. length ws = Suc (length records) \<and> ws ! 0 = fst s \<and>
               ws ! length records = fst s' \<and>
               (\<forall>i<length records.
                  client_DeleteRecord (the_client U p) ctx (trim_zone zone) (ID (records ! i))
                    (ws ! i) = (Inr (out ! i), ws ! Suc i)))"
      by blast
  qed
  from a c w show ?thesis by simp
qed

text \<open>Two records deleted, in the order of the batch.\<close>

theorem DeleteRecords_calls_witness:
  "DeleteRecords mock_UseClient mock_provider () ''example.com.''
     [mk_record ''2'' ''TXT'' ''_acme-challenge.example.com'' ''old2'',
      mk_record ''1'' ''TXT'' ''_acme-challenge.example.com'' ''old'']
     ([mk_record ''1'' ''TXT'' ''_acme-challenge.example.com'' ''old'',
       mk_record ''2'' ''TXT'' ''_acme-challenge.example.com'' ''old2''], [])
   = (([mk_record ''2'' ''TXT'' ''_acme-challenge.example.com'' ''old2'',
        mk_record ''1'' ''TXT'' ''_acme-challenge.example.com'' ''old''], None),
      ([], [(DeleteRecordCall () ''example.com'' ''2'', None),
            (DeleteRecordCall () ''example.com'' ''1'', None)]))"
proof -
  let ?r1 = "mk_record ''1'' ''TXT'' ''_acme-challenge.example.com'' ''old''"
  let ?r2 = "mk_record ''2'' ''TXT'' ''_acme-challenge.example.com'' ''old2''"
  let ?d2 = "(DeleteRecordCall () ''example.com'' ''2'', None)"
  let ?d1 = "(DeleteRecordCall () ''example.com'' ''1'', None)"
  let ?end = "([] :: libdns_Record list, [?d2, ?d1])"
  have h0: "DeleteRecords mock_UseClient mock_provider () ''example.com.'' [?r2] ([?r1, ?r2], [])
      = (([?r2], None), ([?r1], [?d2]))"
    by (simp add: eval_defs)
  have h1: "client_DeleteRecord (the_client mock_UseClient mock_provider) ()
      (trim_zone ''example.com.'') (ID ?r1) (fst ([?r1], [?d2])) = (Inr ?r1, [])"
    by (simp add: eval_defs)
  have h2: "?end = ([], snd ([?r1], [?d2]) @
      [(DeleteRecordCall () (trim_zone ''example.com.'') (ID ?r1), err_of (Inr ?r1))])"
    by (simp add: eval_defs)
  note t = DeleteRecords_calls [OF h0 h1 h2, of "[]", THEN conjunct1]
  from t have e: "DeleteRecords mock_UseClient mock_provider () ''example.com.'' [?r2, ?r1]
      ([?r1, ?r2], [])
      = continue_with [?r2, ?r1]
          (DeleteRecords mock_UseClient mock_provider () ''example.com.'' [] ?end)"
    by simp
  have n: "DeleteRecords mock_UseClient mock_provider () ''example.com.'' [] ?end
      = (([], None), ?end)"
    by (simp add: DeleteRecords_def)
  from e n show ?thesis by (simp add: continue_with_def)
qed

text \<open>
  For every record of every call, as C7 is worded, the property fails: when the deletion of
  the first record fails, the second record gets no delete call.
\<close>

theorem DeleteRecords_calls_counterexample:
  "DeleteRecords mock_UseClient mock_provider () ''example.com''
     [mk_record ''9'' ''A'' ''www.example.com'' ''192.0.2.9'',
      mk_record ''1'' ''A'' ''www.example.com'' ''192.0.2.1'']
     ([mk_record ''1'' ''A'' ''www.example.com'' ''192.0.2.1''], [])
   = (([], Some ''failed to delete record: record not found''),
      ([mk_record ''1'' ''A'' ''www.example.com'' ''192.0.2.1''],
       [(DeleteRecordCall () ''example.com'' ''9'', Some ''record not found'')]))"
  by (simp add: eval_defs)

subsection \<open>C8: failures\<close>

text \<open>
  C8. For \<^verbatim>\<open>AppendRecords\<close>, \<^verbatim>\<open>SetRecords\<close> and \<^verbatim>\<open>DeleteRecords\<close>
  (\<open>aborts_cleanly\<close>, \<open>reported\<close>): the log only grows, and the final remote world is the
  initial one after exactly the logged calls, so nothing that was applied is undone; when no
  error is returned every remote call succeeded, so a failed remote call makes the operation
  return an error; when an error is returned the record list is empty, the last remote call
  made is the only one that failed, and the error is the message of the taxonomy for that kind
  of call followed by the cause. Each message of the taxonomy names the kind of call and ends
  with the cause. In particular, when the listing fails for a first candidate with the ACME
  prefix, the call returns no records and the error \<open>failed to get existing records\<close> with the
  cause, and the failed listing is the only call made.
\<close>

theorem failures_abort:
  fixes st :: "('w, 'c) remote"
  shows
  "aborts_cleanly (the_client U p) Append_error st (AppendRecords U p ctx zone records st) \<and>
   aborts_cleanly (the_client U p) Set_error st (SetRecords U p ctx zone records st) \<and>
   aborts_cleanly (the_client U p) Delete_error st (DeleteRecords U p ctx zone records st) \<and>
   (\<forall>(c :: 'c call) cause m. Append_error c cause = Some m \<or> Set_error c cause = Some m \<or>
        Delete_error c cause = Some m \<longrightarrow> wraps m cause) \<and>
   (\<forall>cause w'. HasPrefix (Name candidate) ''_acme-challenge.'' \<longrightarrow>
      client_GetRecords (the_client U p) ctx (trim_zone (trim_zone zone)) (fst st) = (Inl cause, w') \<longrightarrow>
      AppendRecords U p ctx zone (candidate # records) st =
        (([], Some (''failed to get existing records: '' @ cause)),
         (w', snd st @ [(GetRecordsCall ctx (trim_zone (trim_zone zone)), Some cause)])))"
proof -
  have a: "aborts_cleanly (the_client U p) Append_error st (AppendRecords U p ctx zone records st)"
    unfolding AppendRecords_def AppendRecords_loop_batch
    by (rule run_batch_aborts_cleanly) (rule AppendRecords_body_reported)
  have s: "aborts_cleanly (the_client U p) Set_error st (SetRecords U p ctx zone records st)"
    unfolding SetRecords_def SetRecords_loop_batch
    by (rule run_batch_aborts_cleanly) (rule SetRecords_body_reported)
  have d: "aborts_cleanly (the_client U p) Delete_error st (DeleteRecords U p ctx zone records st)"
    unfolding DeleteRecords_def DeleteRecords_loop_batch
    by (rule run_batch_aborts_cleanly) (rule DeleteRecords_body_reported)
  have w: "\<forall>(c :: 'c call) cause m. Append_error c cause = Some m \<or> Set_error c cause = Some m \<or>
        Delete_error c cause = Some m \<longrightarrow> wraps m cause"
    using error_messages_wrap by blast
  have l: "\<forall>cause w'. HasPrefix (Name candidate) ''_acme-challenge.'' \<longrightarrow>
      client_GetRecords (the_client U p) ctx (trim_zone (trim_zone zone)) (fst st) = (Inl cause, w') \<longrightarrow>
      AppendRecords U p ctx zone (candidate # records) st =
        (([], Some (''failed to get existing records: '' @ cause)),
         (w', snd st @ [(GetRecordsCall ctx (trim_zone (trim_zone zone)), Some cause)]))"
    by (intro allI impI) (rule AppendRecords_listing_failed)
  from a s d w l show ?thesis by (intro conjI)
qed

text \<open>A listing that fails in an append, and a set whose second call fails after its first
  created a record: the created record stays, the third record is not processed.\<close>

theorem failures_abort_witness:
  "HasPrefix (Name (mk_record [] ''TXT'' ''_acme-challenge.example.org'' ''new'')) ''_acme-challenge.'' \<and>
   client_GetRecords (the_client mock_UseClient mock_provider) ()
     (trim_zone (trim_zone ''example.org.'')) []
     = (Inl ''zone not found'', []) \<and>
   AppendRecords mock_UseClient mock_provider () ''example.org.''
     [mk_record [] ''TXT'' ''_acme-challenge.example.org'' ''new'',
      mk_record [] ''A'' ''www.example.org'' ''192.0.2.1''] ([], [])
   = (([], Some ''failed to get existing records: zone not found''),
      ([], [(GetRecordsCall () ''example.org'', Some ''zone not found'')])) \<and>
   SetRecords mock_UseClient mock_provider () ''example.com''
     [mk_record [] ''A'' ''www.example.com'' ''192.0.2.1'',
      mk_record ''9'' ''A'' ''www.example.com'' ''192.0.2.2'',
      mk_record [] ''A'' ''ftp.example.com'' ''192.0.2.3''] ([], [])
   = (([], Some ''failed to update record: record not found''),
      ([mk_record ''n'' ''A'' ''www.example.com'' ''192.0.2.1''],
       [(AddRecordCall () ''example.com'' ''A'' ''www.example.com'' ''192.0.2.1'' 60, None),
        (UpdateRecordCall () ''example.com'' ''9'' ''www.example.com'' ''192.0.2.2'' 60,
           Some ''record not found'')])) \<and>
   aborts_cleanly (the_client mock_UseClient mock_provider) Set_error ([], [])
     (([], Some ''failed to update record: record not found''),
      ([mk_record ''n'' ''A'' ''www.example.com'' ''192.0.2.1''],
       [(AddRecordCall () ''example.com'' ''A'' ''www.example.com'' ''192.0.2.1'' 60, None),
        (UpdateRecordCall () ''example.com'' ''9'' ''www.example.com'' ''192.0.2.2'' 60,
           Some ''record not found'')]))"
proof -
  let ?cand = "mk_record [] ''TXT'' ''_acme-challenge.example.org'' ''new''"
  let ?rest = "[mk_record [] ''A'' ''www.example.org'' ''192.0.2.1'']"
  let ?batch = "[mk_record [] ''A'' ''www.example.com'' ''192.0.2.1'',
      mk_record ''9'' ''A'' ''www.example.com'' ''192.0.2.2'',
      mk_record [] ''A'' ''ftp.example.com'' ''192.0.2.3'']"
  let ?st = "([] :: libdns_Record list, [] :: unit entry list)"
  have h1: "HasPrefix (Name ?cand) ''_acme-challenge.''"
    by (simp add: eval_defs)
  have h2: "client_GetRecords (the_client mock_UseClient mock_provider) ()
      (trim_zone (trim_zone ''example.org.'')) (fst ?st) = (Inl ''zone not found'', [])"
    by (simp add: eval_defs)
  have z: "trim_zone (trim_zone ''example.org.'') = ''example.org''"
    by (simp add: eval_defs)
  have s: "SetRecords mock_UseClient mock_provider () ''example.com'' ?batch ?st
      = (([], Some ''failed to update record: record not found''),
      ([mk_record ''n'' ''A'' ''www.example.com'' ''192.0.2.1''],
       [(AddRecordCall () ''example.com'' ''A'' ''www.example.com'' ''192.0.2.1'' 60, None),
        (UpdateRecordCall () ''example.com'' ''9'' ''www.example.com'' ''192.0.2.2'' 60,
           Some ''record not found'')]))"
    by (simp add: eval_defs)
  note a = failures_abort [where U = mock_UseClient and p = mock_provider and ctx = "()"
      and zone = "''example.org.''" and st = ?st and candidate = ?cand and records = ?rest]
  note b = failures_abort [where U = mock_UseClient and p = mock_provider and ctx = "()"
      and zone = "''example.com''" and st = ?st and records = ?batch]
  from a h1 h2 have "AppendRecords mock_UseClient mock_provider () ''example.org.'' (?cand # ?rest) ?st
      = (([], Some (''failed to get existing records: '' @ ''zone not found'')),
         ([], snd ?st @ [(GetRecordsCall () (trim_zone (trim_zone ''example.org.'')),
            Some ''zone not found'')]))"
    by blast
  with z have l: "AppendRecords mock_UseClient mock_provider () ''example.org.'' (?cand # ?rest) ?st
      = (([], Some ''failed to get existing records: zone not found''),
         ([], [(GetRecordsCall () ''example.org'', Some ''zone not found'')]))"
    by simp
  from b have "aborts_cleanly (the_client mock_UseClient mock_provider) Set_error ?st
      (SetRecords mock_UseClient mock_provider () ''example.com'' ?batch ?st)"
    by blast
  with s have c: "aborts_cleanly (the_client mock_UseClient mock_provider) Set_error ?st
      (([], Some ''failed to update record: record not found''),
      ([mk_record ''n'' ''A'' ''www.example.com'' ''192.0.2.1''],
       [(AddRecordCall () ''example.com'' ''A'' ''www.example.com'' ''192.0.2.1'' 60, None),
        (UpdateRecordCall () ''example.com'' ''9'' ''www.example.com'' ''192.0.2.2'' 60,
           Some ''record not found'')]))"
    by simp
  from h1 h2 l s c show ?thesis by simp
qed

subsection \<open>C9: GetRecords\<close>

text \<open>
  C9, amended. \<^verbatim>\<open>GetRecords\<close> makes exactly one remote call, the listing of the zone
  with one trailing dot stripped from its name. On success it returns the listed records
  unchanged, in the listing's order, and no error. On failure it returns no records and the
  error of the listing itself, unchanged: it does not wrap it in a message of its own.
\<close>

theorem GetRecords_verbatim:
  "GetRecords U p ctx zone st =
     (case client_GetRecords (the_client U p) ctx (trim_zone zone) (fst st) of
        (res, w') \<Rightarrow>
          ((case res of Inl err \<Rightarrow> [] | Inr records \<Rightarrow> records, err_of res),
           (w', snd st @ [(GetRecordsCall ctx (trim_zone zone), err_of res)]))) \<and>
   trim_zone (z @ ''.'') = z"
  by (auto simp: GetRecords_def do_GetRecords_def err_of_def trim_zone_dot
      split: prod.splits sum.splits)

text \<open>A listing that succeeds.\<close>

theorem GetRecords_verbatim_witness:
  "GetRecords mock_UseClient mock_provider () ''example.com.''
     ([mk_record ''1'' ''A'' ''www.example.com'' ''192.0.2.1''], [])
   = (([mk_record ''1'' ''A'' ''www.example.com'' ''192.0.2.1''], None),
      ([mk_record ''1'' ''A'' ''www.example.com'' ''192.0.2.1''],
       [(GetRecordsCall () ''example.com'', None)]))"
  using GetRecords_verbatim [of mock_UseClient mock_provider "()" "''example.com.''"
      "([mk_record ''1'' ''A'' ''www.example.com'' ''192.0.2.1''], [])" "''example.com''"]
  by (simp add: the_client_def mock_UseClient_def mock_client_def mock_GetRecords_def err_of_def)

text \<open>
  The error \<^verbatim>\<open>GetRecords\<close> returns is not a wrapped one: when the remote fails with
  \<open>zone not found\<close>, that very message is returned.
\<close>

theorem GetRecords_error_not_wrapped:
  "GetRecords mock_UseClient mock_provider () ''example.org'' ([], [])
     = (([], Some ''zone not found''),
        ([], [(GetRecordsCall () ''example.org'', Some ''zone not found'')])) \<and>
   \<not> wraps ''zone not found'' ''zone not found''"
  by (simp add: eval_defs wraps_def)

subsection \<open>C10: the ACME branch is chosen by the name alone\<close>

text \<open>
  C10, amended. A candidate of any type that \<^verbatim>\<open>AppendRecords\<close> reaches (the candidates \<open>pre\<close> before it were processed without error and left the
  remote in state \<open>st\<close>;
  \<open>st'\<close> is the state after the candidate). If its name starts with \<open>_acme-challenge.\<close>, the
  first call made for it is the listing of the zone; and when the listing succeeds with at
  least one record of the candidate's own type and name, and the deletions of the later ones
  succeed, the calls made for it are the listing, those deletions and the update of the
  first. If its name does not start with the prefix, the only call made for it is its
  creation, with no listing, whatever its type. The call on a longer batch goes on from
  \<open>st'\<close>.
\<close>

theorem AppendRecords_branch_by_name:
  assumes "AppendRecords U p ctx zone pre st0 = ((rs, None), st)"
    and "AppendRecords U p ctx zone (pre @ [record]) st0 = (out, st')"
  shows "(HasPrefix (Name record) ''_acme-challenge.'' \<longrightarrow>
            (\<exists>rest. calls st' = calls st @ GetRecordsCall ctx (trim_zone (trim_zone zone)) # rest) \<and>
            (\<forall>existing st1 cur stale st2.
               GetRecords U p ctx (trim_zone zone) st = ((existing, None), st1) \<longrightarrow>
               matching record existing = cur # stale \<longrightarrow>
               AppendRecords_delete_stale U p ctx (trim_zone zone) stale st1 = (None, st2) \<longrightarrow>
               calls st' = calls st @ GetRecordsCall ctx (trim_zone (trim_zone zone)) #
                 map (\<lambda>s. DeleteRecordCall ctx (trim_zone (trim_zone zone)) (ID s)) stale @
                 [UpdateRecordCall ctx (trim_zone zone) (ID cur) (Name record) (Value record)
                    (TTL record)])) \<and>
         (\<not> HasPrefix (Name record) ''_acme-challenge.'' \<longrightarrow>
            calls st' = calls st @
              [AddRecordCall ctx (trim_zone zone) (Type record) (Name record) (Value record)
                 (TTL record)]) \<and>
         AppendRecords U p ctx zone (pre @ record # post) st0 =
           (case out of
              (x, Some e) \<Rightarrow> ((x, Some e), st')
            | (rs', None) \<Rightarrow> continue_with rs' (AppendRecords U p ctx zone post st'))"
  using AppendRecords_body_branch [OF AppendRecords_upto(1) [OF assms]]
    AppendRecords_upto(2) [OF assms, of post]
  by (intro conjI) blast+

text \<open>An A record under an ACME name: the two A records of that name are reconciled, the TXT
  record of the same name is left alone.\<close>

theorem AppendRecords_branch_by_name_witness:
  "AppendRecords mock_UseClient mock_provider () ''example.com''
     [mk_record [] ''A'' ''_acme-challenge.example.com'' ''192.0.2.9'']
     ([mk_record ''1'' ''A'' ''_acme-challenge.example.com'' ''192.0.2.1'',
       mk_record ''2'' ''TXT'' ''_acme-challenge.example.com'' ''token'',
       mk_record ''3'' ''A'' ''_acme-challenge.example.com'' ''192.0.2.3''], [])
   = (([mk_record ''1'' ''A'' ''_acme-challenge.example.com'' ''192.0.2.9''], None),
      ([mk_record ''1'' ''A'' ''_acme-challenge.example.com'' ''192.0.2.9'',
        mk_record ''2'' ''TXT'' ''_acme-challenge.example.com'' ''token''],
       [(GetRecordsCall () ''example.com'', None),
        (DeleteRecordCall () ''example.com'' ''3'', None),
        (UpdateRecordCall () ''example.com'' ''1'' ''_acme-challenge.example.com'' ''192.0.2.9'' 60,
           None)])) \<and>
   calls ([mk_record ''1'' ''A'' ''_acme-challenge.example.com'' ''192.0.2.9'',
        mk_record ''2'' ''TXT'' ''_acme-challenge.example.com'' ''token''],
       [(GetRecordsCall () ''example.com'', None),
        (DeleteRecordCall () ''example.com'' ''3'', None),
        (UpdateRecordCall () ''example.com'' ''1'' ''_acme-challenge.example.com'' ''192.0.2.9'' 60,
           None)])
   = [GetRecordsCall () ''example.com'', DeleteRecordCall () ''example.com'' ''3'',
      UpdateRecordCall () ''example.com'' ''1'' ''_acme-challenge.example.com'' ''192.0.2.9'' 60]"
proof -
  let ?cand = "mk_record [] ''A'' ''_acme-challenge.example.com'' ''192.0.2.9''"
  let ?a1 = "mk_record ''1'' ''A'' ''_acme-challenge.example.com'' ''192.0.2.1''"
  let ?t2 = "mk_record ''2'' ''TXT'' ''_acme-challenge.example.com'' ''token''"
  let ?a3 = "mk_record ''3'' ''A'' ''_acme-challenge.example.com'' ''192.0.2.3''"
  let ?a1' = "mk_record ''1'' ''A'' ''_acme-challenge.example.com'' ''192.0.2.9''"
  let ?g = "(GetRecordsCall () ''example.com'', None)"
  let ?d = "(DeleteRecordCall () ''example.com'' ''3'', None)"
  let ?u = "(UpdateRecordCall () ''example.com'' ''1'' ''_acme-challenge.example.com'' ''192.0.2.9'' 60,
           None)"
  let ?st = "([?a1, ?t2, ?a3], [])"
  let ?st' = "([?a1', ?t2], [?g, ?d, ?u])"
  have h0: "AppendRecords mock_UseClient mock_provider () ''example.com'' [] ?st
      = (([], None), ?st)"
    by (simp add: eval_defs)
  have h1: "AppendRecords mock_UseClient mock_provider () ''example.com'' ([] @ [?cand]) ?st
      = (([?a1'], None), ?st')"
    by (simp add: eval_defs)
  have p: "HasPrefix (Name ?cand) ''_acme-challenge.''"
    by (simp add: eval_defs)
  have g: "GetRecords mock_UseClient mock_provider () (trim_zone ''example.com'') ?st
      = (([?a1, ?t2, ?a3], None), ([?a1, ?t2, ?a3], [?g]))"
    by (simp add: eval_defs)
  have m: "matching ?cand [?a1, ?t2, ?a3] = ?a1 # [?a3]"
    by (simp add: eval_defs)
  have d: "AppendRecords_delete_stale mock_UseClient mock_provider () (trim_zone ''example.com'')
      [?a3] ([?a1, ?t2, ?a3], [?g]) = (None, ([?a1, ?t2], [?g, ?d]))"
    by (simp add: eval_defs)
  have z: "trim_zone ''example.com'' = ''example.com''"
    by (simp add: trim_zone_def HasSuffix_def)
  note t = AppendRecords_branch_by_name [OF h0 h1, THEN conjunct1, rule_format, OF p,
      THEN conjunct2, rule_format, OF g m d]
  from t z have c: "calls ?st' = [GetRecordsCall () ''example.com'',
      DeleteRecordCall () ''example.com'' ''3'',
      UpdateRecordCall () ''example.com'' ''1'' ''_acme-challenge.example.com'' ''192.0.2.9'' 60]"
    by (simp add: calls_def mk_record_def)
  from h1 have "AppendRecords mock_UseClient mock_provider () ''example.com'' [?cand] ?st
      = (([?a1'], None), ?st')"
    by simp
  with c show ?thesis by (rule conjI [rotated])
qed

text \<open>
  For every candidate of every call, as C10 is worded, the property fails: a candidate with
  the prefix that comes after a failing candidate causes no listing.
\<close>

theorem AppendRecords_branch_by_name_counterexample:
  "HasPrefix (Name (mk_record [] ''A'' ''_acme-challenge.example.com'' ''192.0.2.9''))
     ''_acme-challenge.'' \<and>
   AppendRecords readonly_UseClient mock_provider () ''example.com''
     [mk_record [] ''A'' ''www.example.com'' ''192.0.2.1'',
      mk_record [] ''A'' ''_acme-challenge.example.com'' ''192.0.2.9'']
     ([mk_record ''1'' ''A'' ''_acme-challenge.example.com'' ''192.0.2.1''], [])
   = (([], Some ''failed to add record: permission denied''),
      ([mk_record ''1'' ''A'' ''_acme-challenge.example.com'' ''192.0.2.1''],
       [(AddRecordCall () ''example.com'' ''A'' ''www.example.com'' ''192.0.2.1'' 60,
           Some ''permission denied'')]))"
  by (simp add: eval_more)

end
